theory Spec2Isabelle
  imports Complex_Main
begin

section \<open>Data model (schemas.py)\<close>

text \<open>
  Every dataclass of \<^verbatim>\<open>schemas.py\<close> is a record. Isabelle record fields share one name
  space, so each field carries a short prefix of its class: \<open>e_\<close> Evidence, \<open>c_\<close> Claim,
  \<open>m_\<close> Move, \<open>s_\<close> DebateState, \<open>l_\<close> Lesson, \<open>f_\<close> Forecast, \<open>p_\<close> ExpertPerformance,
  \<open>x_\<close> Expert, \<open>r_\<close> RoundSpec, \<open>d_\<close> DebateSpec, \<open>pn_\<close> Panel. Python's unbounded
  \<^verbatim>\<open>int\<close> is \<open>int\<close>; Python's \<^verbatim>\<open>float\<close> is idealised as \<open>real\<close> (exact arithmetic,
  no rounding), except in \<open>brier_score_double\<close>, which rounds as the doubles do;
  \<^verbatim>\<open>str\<close> is \<open>string\<close>; \<^verbatim>\<open>Optional[bool]\<close> is \<open>bool option\<close>.
\<close>

record Expert =
  x_id :: string
  x_name :: string
  x_title :: string
  x_background :: string
  x_bias :: string
  x_lens :: string
  x_domain :: string

record Evidence =
  e_source :: string
  e_quote :: string

record Claim =
  c_id :: string
  c_text :: string
  c_confidence :: real
  c_evidence :: "Evidence list"
  c_assumptions :: "string list"
  c_stance :: string

record Move =
  m_move_id :: string
  m_agent_id :: string
  m_agent_title :: string
  m_round :: int
  m_move_type :: string
  m_content :: string
  m_claims :: "Claim list"
  m_targets :: "string list"
  m_timestamp :: string
  m_input_tokens :: int
  m_output_tokens :: int

record RoundSpec =
  r_number :: int
  r_focus :: string
  r_question :: string
  r_agents :: "string list"

record DebateSpec =
  d_title :: string
  d_context :: string
  d_rounds :: "RoundSpec list"
  d_synthesizer_prompt :: string

record Panel =
  pn_name :: string
  pn_description :: string
  pn_experts :: "Expert list"

record DebateState =
  s_spec_title :: string
  s_panel_name :: string
  s_model :: string
  s_synth_model :: string
  s_num_experts :: int
  s_num_rounds :: int
  s_moves :: "Move list"
  s_started_at :: string
  s_finished_at :: string
  s_total_input_tokens :: int
  s_total_output_tokens :: int

record Lesson =
  l_id :: string
  l_text :: string
  l_source_debate :: string
  l_source_round :: int
  l_category :: string
  l_confidence :: real
  l_created_at :: string

record Forecast =
  f_id :: string
  f_text :: string
  f_probability :: real
  f_deadline :: string
  f_source_debate :: string
  f_source_claim_id :: string
  f_resolved :: bool
  f_outcome :: "bool option"
  f_resolved_at :: string
  f_created_at :: string

record ExpertPerformance =
  p_expert_id :: string
  p_debates_participated :: int
  p_total_claims :: int
  p_avg_confidence :: real
  p_challenges_received :: int
  p_challenges_made :: int

subsection \<open>Python built-ins used by the source\<close>

text \<open>\<^verbatim>\<open>sum(iterable)\<close> adds from the left, starting at 0.\<close>

definition py_sum :: "'a::monoid_add list \<Rightarrow> 'a" where
  "py_sum xs = foldl (+) 0 xs"

text \<open>\<^verbatim>\<open>len(xs)\<close> is a Python int.\<close>

definition len :: "'a list \<Rightarrow> int" where
  "len xs = int (length xs)"

subsection \<open>DebateState.total_claims\<close>

text \<open>\<^verbatim>\<open>return sum(len(m.claims) for m in self.moves)\<close>\<close>

definition total_claims :: "DebateState \<Rightarrow> int" where
  "total_claims s = py_sum (map (\<lambda>m. len (m_claims m)) (s_moves s))"

subsection \<open>Forecast.brier_score\<close>

text \<open>
  \<^verbatim>\<open>
  if not self.resolved or self.outcome is None: return None
  actual = 1.0 if self.outcome else 0.0
  return (self.probability - actual) ** 2
  \<close>
\<close>

definition brier_score :: "Forecast \<Rightarrow> real option" where
  "brier_score f =
     (if \<not> f_resolved f then None
      else case f_outcome f of
             None \<Rightarrow> None
           | Some outcome \<Rightarrow>
               (let actual = (if outcome then 1 else 0)
                in Some ((f_probability f - actual) ^ 2)))"

subsection \<open>Forecast.brier_score in double precision\<close>

text \<open>
  A Python \<^verbatim>\<open>float\<close> is an IEEE 754 binary64 number, a double: a real \<open>m * 2 ^ e\<close> with
  \<open>\<bar>m\<bar> < 2 ^ 53\<close> and \<open>- 1074 \<le> e \<le> 971\<close>. An arithmetic operation returns the double
  nearest to its exact result, a tie going to the even significand. The definitions of
  this subsection evaluate the expression of \<^verbatim>\<open>brier_score\<close> under that rule; the doubles
  are the reals that \<open>round_double\<close> leaves unchanged, and a decimal literal such as
  \<^verbatim>\<open>0.9\<close> denotes \<open>round_double (9 / 10)\<close>. Infinities and NaN are outside the model.
\<close>

text \<open>The number of binary digits of a natural number (\<^verbatim>\<open>int.bit_length\<close>).\<close>

fun bit_length :: "nat \<Rightarrow> nat" where
  "bit_length n = (if n = 0 then 0 else Suc (bit_length (n div 2)))"

declare bit_length.simps [simp del]

text \<open>Rounding a real to the nearest integer, a tie going to the even one.\<close>

definition round_half_even :: "real \<Rightarrow> int" where
  "round_half_even y =
     (let n = \<lfloor>y\<rfloor>; r = y - of_int n
      in if r < 1 / 2 then n else if 1 / 2 < r then n + 1 else if even n then n else n + 1)"

text \<open>The binary exponent of a real \<open>x \<noteq> 0\<close>: the \<open>e\<close> with \<open>2 ^ e \<le> \<bar>x\<bar> < 2 ^ (e + 1)\<close>.\<close>

definition exponent :: "real \<Rightarrow> int" where
  "exponent x =
     (if 1 \<le> \<bar>x\<bar> then int (bit_length (nat \<lfloor>\<bar>x\<bar>\<rfloor>)) - 1
      else - int (bit_length (nat (\<lceil>1 / \<bar>x\<bar>\<rceil> - 1))))"

text \<open>
  Rounding to the nearest double: the significand has 53 binary digits, so the spacing of
  the doubles around \<open>x\<close> is \<open>2 ^ (e - 52)\<close> for the exponent \<open>e\<close> of \<open>x\<close>, and
  \<open>2 ^ (- 1074)\<close> below \<open>2 ^ (- 1022)\<close> (the subnormal range). The result is not bounded
  here; the operations below say what happens from \<open>2 ^ 1024\<close> on.
\<close>

definition round_double :: "real \<Rightarrow> real" where
  "round_double x =
     (if x = 0 then 0
      else let e = max (exponent x) (- 1022);
               ulp = 2 powi (e - 52)
           in of_int (round_half_even (x / ulp)) * ulp)"

text \<open>
  \<^verbatim>\<open>x - y\<close> on doubles. The one subtraction of the source takes 0.0 or 1.0 from a double,
  and its result is below \<open>2 ^ 1024\<close> for every double \<open>x\<close>.
\<close>

definition float_sub :: "real \<Rightarrow> real \<Rightarrow> real" where
  "float_sub x y = round_double (x - y)"

text \<open>
  \<^verbatim>\<open>x ** 2\<close> on a double: the C library's \<^verbatim>\<open>pow(x, 2.0)\<close>, taken to return the correctly
  rounded square. Python raises \<^verbatim>\<open>OverflowError\<close> when the result overflows, and returns
  the rounded result (a subnormal or zero) when it underflows.
\<close>

datatype float_error = OverflowError

definition float_pow2 :: "real \<Rightarrow> float_error + real" where
  "float_pow2 x =
     (let r = round_double (x * x)
      in if 2 ^ 1024 \<le> r then Inl OverflowError else Inr r)"

text \<open>
  \<^verbatim>\<open>
  if not self.resolved or self.outcome is None: return None
  actual = 1.0 if self.outcome else 0.0
  return (self.probability - actual) ** 2
  \<close>
  with the two operations as Python evaluates them on doubles.
\<close>

definition brier_score_double :: "Forecast \<Rightarrow> float_error + real option" where
  "brier_score_double f =
     (if \<not> f_resolved f then Inr None
      else case f_outcome f of
             None \<Rightarrow> Inr None
           | Some outcome \<Rightarrow>
               (let actual = (if outcome then 1 else 0)
                in case float_pow2 (float_sub (f_probability f) actual) of
                     Inl e \<Rightarrow> Inl e
                   | Inr score \<Rightarrow> Inr (Some score)))"

section \<open>Dictionary conversion (schemas.py)\<close>

text \<open>
  The dictionaries that \<^verbatim>\<open>to_dict\<close> builds and \<^verbatim>\<open>from_dict\<close> reads are JSON values. A
  dictionary is an association list in insertion order, with distinct keys as
  \<^verbatim>\<open>json.load\<close> and \<^verbatim>\<open>asdict\<close> produce them.
\<close>

datatype json =
    JNull
  | JBool bool
  | JInt int
  | JFloat real
  | JStr string
  | JList "json list"
  | JDict "(string \<times> json) list"

text \<open>
  \<open>TypeError\<close> and \<open>AttributeError\<close> are the exceptions Python raises. The dataclasses
  check no types: a value of the wrong type is stored unchecked. The typed records cannot
  hold such an object, so the model leaves its scope there with \<open>Unrepresentable\<close>; it
  stands for no Python exception.
\<close>

datatype error = TypeError | AttributeError | Unrepresentable

definition bind_e :: "error + 'a \<Rightarrow> ('a \<Rightarrow> error + 'b) \<Rightarrow> error + 'b" where
  "bind_e m k = (case m of Inl e \<Rightarrow> Inl e | Inr x \<Rightarrow> k x)"

text \<open>A list comprehension \<^verbatim>\<open>[f(x) for x in xs]\<close> stops at the first exception.\<close>

fun mapM :: "('a \<Rightarrow> error + 'b) \<Rightarrow> 'a list \<Rightarrow> error + 'b list" where
  "mapM f [] = Inr []"
| "mapM f (x # xs) = bind_e (f x) (\<lambda>y. bind_e (mapM f xs) (\<lambda>ys. Inr (y # ys)))"

text \<open>\<^verbatim>\<open>d.get(key, default)\<close>: only a dictionary has the method.\<close>

fun py_get :: "json \<Rightarrow> string \<Rightarrow> json \<Rightarrow> error + json" where
  "py_get (JDict kvs) key dflt = Inr (case map_of kvs key of None \<Rightarrow> dflt | Some v \<Rightarrow> v)"
| "py_get _ key dflt = Inl AttributeError"

text \<open>
  \<^verbatim>\<open>for x in v\<close>: a list yields its elements, a string its characters, a dictionary its
  keys; nothing else is iterable.
\<close>

fun py_iter :: "json \<Rightarrow> error + json list" where
  "py_iter (JList xs) = Inr xs"
| "py_iter (JStr s) = Inr (map (\<lambda>ch. JStr [ch]) s)"
| "py_iter (JDict kvs) = Inr (map (\<lambda>kv. JStr (fst kv)) kvs)"
| "py_iter _ = Inl TypeError"

text \<open>Reading a stored value at the type its field is annotated with.\<close>

fun as_str :: "json \<Rightarrow> error + string" where
  "as_str (JStr s) = Inr s"
| "as_str _ = Inl Unrepresentable"

fun as_int :: "json \<Rightarrow> error + int" where
  "as_int (JInt i) = Inr i"
| "as_int _ = Inl Unrepresentable"

fun as_float :: "json \<Rightarrow> error + real" where
  "as_float (JFloat r) = Inr r"
| "as_float (JInt i) = Inr (real_of_int i)"
| "as_float _ = Inl Unrepresentable"

fun as_str_list :: "json \<Rightarrow> error + string list" where
  "as_str_list (JList xs) = mapM as_str xs"
| "as_str_list _ = Inl Unrepresentable"

subsection \<open>to_dict\<close>

text \<open>\<^verbatim>\<open>asdict\<close> lists the fields in declaration order and converts nested dataclasses and lists.\<close>

definition Evidence_to_dict :: "Evidence \<Rightarrow> json" where
  "Evidence_to_dict e = JDict [(''source'', JStr (e_source e)), (''quote'', JStr (e_quote e))]"

definition Claim_to_dict :: "Claim \<Rightarrow> json" where
  "Claim_to_dict c = JDict
     [(''id'', JStr (c_id c)),
      (''text'', JStr (c_text c)),
      (''confidence'', JFloat (c_confidence c)),
      (''evidence'', JList (map Evidence_to_dict (c_evidence c))),
      (''assumptions'', JList (map JStr (c_assumptions c))),
      (''stance'', JStr (c_stance c))]"

definition Move_to_dict :: "Move \<Rightarrow> json" where
  "Move_to_dict m = JDict
     [(''move_id'', JStr (m_move_id m)),
      (''agent_id'', JStr (m_agent_id m)),
      (''agent_title'', JStr (m_agent_title m)),
      (''round'', JInt (m_round m)),
      (''move_type'', JStr (m_move_type m)),
      (''content'', JStr (m_content m)),
      (''claims'', JList (map Claim_to_dict (m_claims m))),
      (''targets'', JList (map JStr (m_targets m))),
      (''timestamp'', JStr (m_timestamp m)),
      (''input_tokens'', JInt (m_input_tokens m)),
      (''output_tokens'', JInt (m_output_tokens m))]"

definition DebateState_to_dict :: "DebateState \<Rightarrow> json" where
  "DebateState_to_dict s = JDict
     [(''spec_title'', JStr (s_spec_title s)),
      (''panel_name'', JStr (s_panel_name s)),
      (''model'', JStr (s_model s)),
      (''synth_model'', JStr (s_synth_model s)),
      (''num_experts'', JInt (s_num_experts s)),
      (''num_rounds'', JInt (s_num_rounds s)),
      (''total_moves'', JInt (len (s_moves s))),
      (''total_claims'', JInt (total_claims s)),
      (''total_input_tokens'', JInt (s_total_input_tokens s)),
      (''total_output_tokens'', JInt (s_total_output_tokens s)),
      (''started_at'', JStr (s_started_at s)),
      (''finished_at'', JStr (s_finished_at s)),
      (''moves'', JList (map Move_to_dict (s_moves s)))]"

subsection \<open>from_dict\<close>

text \<open>
  \<^verbatim>\<open>Evidence(**e)\<close>: \<open>e\<close> must be a mapping, every key must name a field, and \<open>source\<close>,
  which has no default, must be present; \<open>quote\<close> defaults to the empty string.
\<close>

fun Evidence_kwargs :: "json \<Rightarrow> error + Evidence" where
  "Evidence_kwargs (JDict kvs) =
     (if list_all (\<lambda>kv. fst kv = ''source'' \<or> fst kv = ''quote'') kvs then
        (case map_of kvs ''source'' of
           None \<Rightarrow> Inl TypeError
         | Some src \<Rightarrow>
             bind_e (as_str src) (\<lambda>source.
             bind_e (as_str (case map_of kvs ''quote'' of None \<Rightarrow> JStr '''' | Some q \<Rightarrow> q))
               (\<lambda>quote. Inr \<lparr>e_source = source, e_quote = quote\<rparr>)))
      else Inl TypeError)"
| "Evidence_kwargs _ = Inl TypeError"

text \<open>
  One element of the comprehension over \<^verbatim>\<open>d.get("claims", [])\<close>: the keyword arguments
  are evaluated in the order they are written, then the object is built.
\<close>

definition Claim_from_dict :: "json \<Rightarrow> error + Claim" where
  "Claim_from_dict c =
     bind_e (py_get c ''id'' (JStr '''')) (\<lambda>v_id.
     bind_e (py_get c ''text'' (JStr '''')) (\<lambda>v_text.
     bind_e (py_get c ''confidence'' (JFloat (7 / 10))) (\<lambda>v_confidence.
     bind_e (py_get c ''evidence'' (JList [])) (\<lambda>v_evidence.
     bind_e (py_iter v_evidence) (\<lambda>es.
     bind_e (mapM Evidence_kwargs es) (\<lambda>evidence.
     bind_e (py_get c ''assumptions'' (JList [])) (\<lambda>v_assumptions.
     bind_e (py_get c ''stance'' (JStr ''neutral'')) (\<lambda>v_stance.
     bind_e (as_str v_id) (\<lambda>cid.
     bind_e (as_str v_text) (\<lambda>text.
     bind_e (as_float v_confidence) (\<lambda>confidence.
     bind_e (as_str_list v_assumptions) (\<lambda>assumptions.
     bind_e (as_str v_stance) (\<lambda>stance.
       Inr \<lparr>c_id = cid, c_text = text, c_confidence = confidence, c_evidence = evidence,
            c_assumptions = assumptions, c_stance = stance\<rparr>)))))))))))))"

text \<open>\<^verbatim>\<open>Move.from_dict\<close>: the claims comprehension runs first, then the constructor call.\<close>

definition Move_from_dict :: "json \<Rightarrow> error + Move" where
  "Move_from_dict d =
     bind_e (py_get d ''claims'' (JList [])) (\<lambda>v_claims.
     bind_e (py_iter v_claims) (\<lambda>cs.
     bind_e (mapM Claim_from_dict cs) (\<lambda>claims.
     bind_e (py_get d ''move_id'' (JStr '''')) (\<lambda>v_move_id.
     bind_e (py_get d ''agent_id'' (JStr '''')) (\<lambda>v_agent_id.
     bind_e (py_get d ''agent_title'' (JStr '''')) (\<lambda>v_agent_title.
     bind_e (py_get d ''round'' (JInt 0)) (\<lambda>v_round.
     bind_e (py_get d ''move_type'' (JStr ''claim'')) (\<lambda>v_move_type.
     bind_e (py_get d ''content'' (JStr '''')) (\<lambda>v_content.
     bind_e (py_get d ''targets'' (JList [])) (\<lambda>v_targets.
     bind_e (py_get d ''timestamp'' (JStr '''')) (\<lambda>v_timestamp.
     bind_e (py_get d ''input_tokens'' (JInt 0)) (\<lambda>v_input_tokens.
     bind_e (py_get d ''output_tokens'' (JInt 0)) (\<lambda>v_output_tokens.
     bind_e (as_str v_move_id) (\<lambda>move_id.
     bind_e (as_str v_agent_id) (\<lambda>agent_id.
     bind_e (as_str v_agent_title) (\<lambda>agent_title.
     bind_e (as_int v_round) (\<lambda>rnd.
     bind_e (as_str v_move_type) (\<lambda>move_type.
     bind_e (as_str v_content) (\<lambda>content.
     bind_e (as_str_list v_targets) (\<lambda>targets.
     bind_e (as_str v_timestamp) (\<lambda>timestamp.
     bind_e (as_int v_input_tokens) (\<lambda>input_tokens.
     bind_e (as_int v_output_tokens) (\<lambda>output_tokens.
       Inr \<lparr>m_move_id = move_id, m_agent_id = agent_id, m_agent_title = agent_title,
            m_round = rnd, m_move_type = move_type, m_content = content, m_claims = claims,
            m_targets = targets, m_timestamp = timestamp, m_input_tokens = input_tokens,
            m_output_tokens = output_tokens\<rparr>)))))))))))))))))))))))"

text \<open>
  \<^verbatim>\<open>DebateState.from_dict\<close>: the constructor call first, then \<^verbatim>\<open>state.moves\<close> is
  assigned from the comprehension over \<^verbatim>\<open>d.get("moves", [])\<close>.
\<close>

definition DebateState_from_dict :: "json \<Rightarrow> error + DebateState" where
  "DebateState_from_dict d =
     bind_e (py_get d ''spec_title'' (JStr '''')) (\<lambda>v_spec_title.
     bind_e (py_get d ''panel_name'' (JStr '''')) (\<lambda>v_panel_name.
     bind_e (py_get d ''model'' (JStr '''')) (\<lambda>v_model.
     bind_e (py_get d ''synth_model'' (JStr '''')) (\<lambda>v_synth_model.
     bind_e (py_get d ''num_experts'' (JInt 0)) (\<lambda>v_num_experts.
     bind_e (py_get d ''num_rounds'' (JInt 0)) (\<lambda>v_num_rounds.
     bind_e (py_get d ''started_at'' (JStr '''')) (\<lambda>v_started_at.
     bind_e (py_get d ''finished_at'' (JStr '''')) (\<lambda>v_finished_at.
     bind_e (py_get d ''total_input_tokens'' (JInt 0)) (\<lambda>v_total_input_tokens.
     bind_e (py_get d ''total_output_tokens'' (JInt 0)) (\<lambda>v_total_output_tokens.
     bind_e (as_str v_spec_title) (\<lambda>spec_title.
     bind_e (as_str v_panel_name) (\<lambda>panel_name.
     bind_e (as_str v_model) (\<lambda>model.
     bind_e (as_str v_synth_model) (\<lambda>synth_model.
     bind_e (as_int v_num_experts) (\<lambda>num_experts.
     bind_e (as_int v_num_rounds) (\<lambda>num_rounds.
     bind_e (as_str v_started_at) (\<lambda>started_at.
     bind_e (as_str v_finished_at) (\<lambda>finished_at.
     bind_e (as_int v_total_input_tokens) (\<lambda>total_input_tokens.
     bind_e (as_int v_total_output_tokens) (\<lambda>total_output_tokens.
     bind_e (py_get d ''moves'' (JList [])) (\<lambda>v_moves.
     bind_e (py_iter v_moves) (\<lambda>ms.
     bind_e (mapM Move_from_dict ms) (\<lambda>moves.
       Inr \<lparr>s_spec_title = spec_title, s_panel_name = panel_name, s_model = model,
            s_synth_model = synth_model, s_num_experts = num_experts,
            s_num_rounds = num_rounds, s_moves = moves, s_started_at = started_at,
            s_finished_at = finished_at, s_total_input_tokens = total_input_tokens,
            s_total_output_tokens = total_output_tokens\<rparr>)))))))))))))))))))))))"

section \<open>Memory manager (memory.py)\<close>

text \<open>
  The storage root holds four JSON files. Each file is modelled by the collection it decodes
  to (\<^verbatim>\<open>_load_json_list\<close> with \<^verbatim>\<open>from_dict\<close>); \<open>None\<close> is a file that does not exist.
  The performance file is a dictionary from expert id to record.
\<close>

record MemoryManager =
  bootstrap_file :: "Lesson list option"
  lessons_file :: "Lesson list option"
  forecasts_file :: "Forecast list option"
  performance_file :: "(string \<rightharpoonup> ExpertPerformance) option"

subsection \<open>Lessons\<close>

text \<open>\<^verbatim>\<open>load_lessons\<close>: the bootstrap lessons first, then the learned ones.\<close>

definition load_lessons :: "MemoryManager \<Rightarrow> Lesson list" where
  "load_lessons mm =
     (let lessons = [];
          lessons = (case bootstrap_file mm of None \<Rightarrow> lessons | Some b \<Rightarrow> lessons @ b);
          lessons = (case lessons_file mm of None \<Rightarrow> lessons | Some l \<Rightarrow> lessons @ l)
      in lessons)"

text \<open>The slice \<^verbatim>\<open>xs[-n:]\<close> for \<open>n > 0\<close>: the last \<open>n\<close> elements, or all of a shorter list.\<close>

definition last_n :: "nat \<Rightarrow> 'a list \<Rightarrow> 'a list" where
  "last_n n xs = drop (length xs - n) xs"

text \<open>\<^verbatim>\<open>sep.join(parts)\<close>\<close>

fun join :: "string \<Rightarrow> string list \<Rightarrow> string" where
  "join sep [] = []"
| "join sep [p] = p"
| "join sep (p # q # ps) = p @ sep @ join sep (q # ps)"

text \<open>\<^verbatim>\<open>f"- [{l.category}] {l.text}"\<close>\<close>

definition lesson_line :: "Lesson \<Rightarrow> string" where
  "lesson_line l = ''- ['' @ l_category l @ ''] '' @ l_text l"

text \<open>
  \<^verbatim>\<open>
  lessons = self.load_lessons()
  if not lessons: return ""
  parts = []
  for l in lessons[-20:]: parts.append(f"- [{l.category}] {l.text}")
  return "\n".join(parts)
  \<close>
\<close>

definition load_context :: "MemoryManager \<Rightarrow> string" where
  "load_context mm =
     (let lessons = load_lessons mm
      in if lessons = [] then ''''
         else join [CHR 0x0A] (map lesson_line (last_n 20 lessons)))"

subsection \<open>Forecasts\<close>

definition load_forecasts :: "MemoryManager \<Rightarrow> Forecast list" where
  "load_forecasts mm = (case forecasts_file mm of None \<Rightarrow> [] | Some fs \<Rightarrow> fs)"

definition save_forecasts :: "MemoryManager \<Rightarrow> Forecast list \<Rightarrow> MemoryManager" where
  "save_forecasts mm forecasts = mm\<lparr>forecasts_file := Some forecasts\<rparr>"

text \<open>
  The loop of \<^verbatim>\<open>resolve_forecast\<close>: the first forecast with the id is updated in place and
  the loop breaks. \<open>now\<close> is the reading of \<^verbatim>\<open>datetime.now().isoformat()\<close>.
\<close>

fun resolve_loop :: "string \<Rightarrow> bool \<Rightarrow> string \<Rightarrow> Forecast list \<Rightarrow> Forecast list" where
  "resolve_loop forecast_id outcome now [] = []"
| "resolve_loop forecast_id outcome now (f # fs) =
     (if f_id f = forecast_id
      then f\<lparr>f_resolved := True, f_outcome := Some outcome, f_resolved_at := now\<rparr> # fs
      else f # resolve_loop forecast_id outcome now fs)"

definition resolve_forecast :: "MemoryManager \<Rightarrow> string \<Rightarrow> bool \<Rightarrow> string \<Rightarrow> MemoryManager" where
  "resolve_forecast mm forecast_id outcome now =
     (let forecasts = load_forecasts mm
      in save_forecasts mm (resolve_loop forecast_id outcome now forecasts))"

subsection \<open>Panel performance\<close>

definition load_performance :: "MemoryManager \<Rightarrow> (string \<rightharpoonup> ExpertPerformance)" where
  "load_performance mm = (case performance_file mm of None \<Rightarrow> Map.empty | Some perf \<Rightarrow> perf)"

definition save_performance ::
  "MemoryManager \<Rightarrow> (string \<rightharpoonup> ExpertPerformance) \<Rightarrow> MemoryManager" where
  "save_performance mm perf = mm\<lparr>performance_file := Some perf\<rparr>"

text \<open>\<^verbatim>\<open>ExpertPerformance(expert_id=eid)\<close>: every counter at its default.\<close>

definition new_performance :: "string \<Rightarrow> ExpertPerformance" where
  "new_performance eid =
     \<lparr>p_expert_id = eid, p_debates_participated = 0, p_total_claims = 0,
      p_avg_confidence = 0, p_challenges_received = 0, p_challenges_made = 0\<rparr>"

text \<open>
  The first pass over the moves:
  \<^verbatim>\<open>
  all_targets = {}
  for move in state.moves:
      for target in move.targets:
          all_targets[target] = move.agent_id
  \<close>
\<close>

definition all_targets :: "Move list \<Rightarrow> (string \<rightharpoonup> string)" where
  "all_targets moves =
     foldl (\<lambda>d move. foldl (\<lambda>d target. d(target \<mapsto> m_agent_id move)) d (m_targets move))
       Map.empty moves"

text \<open>
  The inner loop over the claims of a move:
  \<^verbatim>\<open>
  for claim in move.claims:
      if claim.id in all_targets: p.challenges_received += 1
  \<close>
\<close>

definition count_received ::
  "(string \<rightharpoonup> string) \<Rightarrow> ExpertPerformance \<Rightarrow> Claim list \<Rightarrow> ExpertPerformance" where
  "count_received targets p claims =
     foldl (\<lambda>p claim. if targets (c_id claim) \<noteq> None
                       then p\<lparr>p_challenges_received := p_challenges_received p + 1\<rparr>
                       else p) p claims"

text \<open>
  The running average of one move:
  \<^verbatim>\<open>
  if n_claims > 0:
      avg_conf = sum(c.confidence for c in move.claims) / n_claims
      total = p.total_claims
      prev = total - n_claims
      if total > 0:
          p.avg_confidence = (p.avg_confidence * prev + avg_conf * n_claims) / total
  \<close>
  It runs after \<^verbatim>\<open>p.total_claims += n_claims\<close>.
\<close>

definition update_avg :: "ExpertPerformance \<Rightarrow> Move \<Rightarrow> ExpertPerformance" where
  "update_avg p move =
     (let n_claims = len (m_claims move)
      in if n_claims > 0 then
           (let avg_conf = py_sum (map c_confidence (m_claims move)) / real_of_int n_claims;
                total = p_total_claims p;
                prev = total - n_claims
            in if total > 0
               then p\<lparr>p_avg_confidence :=
                        (p_avg_confidence p * real_of_int prev + avg_conf * real_of_int n_claims)
                          / real_of_int total\<rparr>
               else p)
         else p)"

text \<open>The body of the second loop of \<^verbatim>\<open>update_panel_performance\<close>, for one move.\<close>

definition update_move ::
  "(string \<rightharpoonup> string) \<Rightarrow> (string \<rightharpoonup> ExpertPerformance) \<Rightarrow> Move
     \<Rightarrow> (string \<rightharpoonup> ExpertPerformance)" where
  "update_move targets perf move =
     (if m_move_type move = ''error'' \<or> m_move_type move = ''synthesize'' then perf
      else
        (let eid = m_agent_id move;
             p = (case perf eid of None \<Rightarrow> new_performance eid | Some p \<Rightarrow> p);
             p = p\<lparr>p_debates_participated := p_debates_participated p + 1\<rparr>;
             n_claims = len (m_claims move);
             p = p\<lparr>p_total_claims := p_total_claims p + n_claims\<rparr>;
             p = update_avg p move;
             p = p\<lparr>p_challenges_made := p_challenges_made p + len (m_targets move)\<rparr>;
             p = count_received targets p (m_claims move)
         in perf(eid \<mapsto> p)))"

definition update_panel_performance :: "MemoryManager \<Rightarrow> DebateState \<Rightarrow> MemoryManager" where
  "update_panel_performance mm state =
     (let perf = load_performance mm;
          targets = all_targets (s_moves state);
          perf = foldl (update_move targets) perf (s_moves state)
      in save_performance mm perf)"

section \<open>Debate runner (runner.py)\<close>

text \<open>\<^verbatim>\<open>Expert.display_title\<close>: \<^verbatim>\<open>f"{self.name} ({self.title})"\<close>\<close>

definition display_title :: "Expert \<Rightarrow> string" where
  "display_title e = x_name e @ '' ('' @ x_title e @ '')''"

record DebateAgent =
  a_expert :: Expert
  a_model :: string
  a_is_synthesizer :: bool

definition SYNTHESIZER_EXPERT :: Expert where
  "SYNTHESIZER_EXPERT =
     \<lparr>x_id = ''synthesizer'', x_name = ''Synthesis Engine'', x_title = ''Debate Synthesizer'',
      x_background = ''Neutral facilitator that consolidates all expert contributions.'',
      x_bias = '''', x_lens = '''', x_domain = ''''\<rparr>"

text \<open>
  The agents dictionary of \<^verbatim>\<open>DebateRunner.__init__\<close>: one agent per panel expert, keyed by
  the expert's id, then the synthesizer under the reserved key.
\<close>

definition init_agents :: "Panel \<Rightarrow> string \<Rightarrow> string \<Rightarrow> (string \<rightharpoonup> DebateAgent)" where
  "init_agents panel model synth_model =
     (foldl (\<lambda>agents expert.
               agents(x_id expert \<mapsto>
                 \<lparr>a_expert = expert, a_model = model, a_is_synthesizer = False\<rparr>))
        Map.empty (pn_experts panel))
     (''synthesizer'' \<mapsto>
        \<lparr>a_expert = SYNTHESIZER_EXPERT, a_model = synth_model, a_is_synthesizer = True\<rparr>)"

text \<open>
  What the runner calls outside itself. \<open>make_move\<close> is \<^verbatim>\<open>DebateAgent.make_move\<close> (the
  language-model call and the parsing of its answer): \<open>Inr\<close> the returned move, \<open>Inl msg\<close>
  an exception whose \<^verbatim>\<open>str\<close> is \<open>msg\<close>. \<open>write_move\<close> is the \<^verbatim>\<open>json.dump\<close> of the move
  into its own file (arguments: the move counter, the round number, the agent id and the
  move), inside the same \<^verbatim>\<open>try\<close>: \<open>Some msg\<close> is an exception. \<open>clock\<close> reads
  \<^verbatim>\<open>datetime.now().isoformat()\<close> at a given move counter.
\<close>

record Env =
  make_move :: "DebateAgent \<Rightarrow> RoundSpec \<Rightarrow> string \<Rightarrow> Move list \<Rightarrow> string \<Rightarrow> string \<Rightarrow> string
                  \<Rightarrow> string + Move"
  write_move :: "nat \<Rightarrow> int \<Rightarrow> string \<Rightarrow> Move \<Rightarrow> string option"
  clock :: "nat \<Rightarrow> string"

text \<open>Decimal digits of a natural number, and \<^verbatim>\<open>f"M{move_counter:03d}"\<close>.\<close>

fun str_nat :: "nat \<Rightarrow> string" where
  "str_nat n =
     (if n < 10 then [char_of (48 + n)]
      else str_nat (n div 10) @ [char_of (48 + n mod 10)])"

definition format_move_id :: "nat \<Rightarrow> string" where
  "format_move_id move_counter =
     (let ds = str_nat move_counter
      in ''M'' @ replicate (3 - length ds) (CHR ''0'') @ ds)"

text \<open>
  The handler of \<^verbatim>\<open>except Exception as e\<close>:
  \<^verbatim>\<open>
  error_move = Move(move_id=move_id, agent_id=agent_id, agent_title=title,
                    round=rnd.number, move_type="error", content=f"Agent error: {e!s}")
  state.moves.append(error_move)
  \<close>
  The fields left out take the defaults of the dataclass.
\<close>

definition error_move :: "string \<Rightarrow> string \<Rightarrow> string \<Rightarrow> int \<Rightarrow> string \<Rightarrow> string \<Rightarrow> Move" where
  "error_move move_id agent_id title rnd_number e now =
     \<lparr>m_move_id = move_id, m_agent_id = agent_id, m_agent_title = title,
      m_round = rnd_number, m_move_type = ''error'', m_content = ''Agent error: '' @ e,
      m_claims = [], m_targets = [], m_timestamp = now, m_input_tokens = 0,
      m_output_tokens = 0\<rparr>"

definition append_move :: "DebateState \<Rightarrow> Move \<Rightarrow> DebateState" where
  "append_move state move = state\<lparr>s_moves := s_moves state @ [move]\<rparr>"

text \<open>
  One iteration of \<^verbatim>\<open>for agent_id in rnd.agents\<close> on the pair of the state and the move
  counter. An agent id with no agent is skipped by \<^verbatim>\<open>continue\<close>, before the counter is
  incremented. In the \<^verbatim>\<open>try\<close> the move is appended and the token totals are updated before
  the move file is written, so an exception of the write finds the move already appended.
  The progress output (\<^verbatim>\<open>print\<close>) changes no state and is left out.
\<close>

definition run_turn ::
  "Env \<Rightarrow> DebateSpec \<Rightarrow> (string \<rightharpoonup> DebateAgent) \<Rightarrow> string \<Rightarrow> RoundSpec
     \<Rightarrow> DebateState \<times> nat \<Rightarrow> string \<Rightarrow> DebateState \<times> nat" where
  "run_turn env spec agents memory_context rnd sc agent_id =
     (let state = fst sc; move_counter = snd sc
      in case agents agent_id of
           None \<Rightarrow> (state, move_counter)
         | Some agent \<Rightarrow>
             (let move_id = format_move_id move_counter;
                  title = display_title (a_expert agent)
              in case make_move env agent rnd (d_context spec) (s_moves state) move_id
                        memory_context (d_synthesizer_prompt spec) of
                   Inr move \<Rightarrow>
                     (let state = append_move state move;
                          state = state\<lparr>s_total_input_tokens :=
                                    s_total_input_tokens state + m_input_tokens move\<rparr>;
                          state = state\<lparr>s_total_output_tokens :=
                                    s_total_output_tokens state + m_output_tokens move\<rparr>
                      in case write_move env move_counter (r_number rnd) agent_id move of
                           None \<Rightarrow> (state, move_counter + 1)
                         | Some e \<Rightarrow>
                             (append_move state
                                (error_move move_id agent_id title (r_number rnd) e
                                   (clock env move_counter)),
                              move_counter + 1))
                 | Inl e \<Rightarrow>
                     (append_move state
                        (error_move move_id agent_id title (r_number rnd) e
                           (clock env move_counter)),
                      move_counter + 1)))"

text \<open>\<^verbatim>\<open>for agent_id in rnd.agents\<close>, from any point of the round on.\<close>

definition run_agents ::
  "Env \<Rightarrow> DebateSpec \<Rightarrow> (string \<rightharpoonup> DebateAgent) \<Rightarrow> string \<Rightarrow> RoundSpec
     \<Rightarrow> DebateState \<times> nat \<Rightarrow> string list \<Rightarrow> DebateState \<times> nat" where
  "run_agents env spec agents memory_context rnd sc agent_ids =
     foldl (run_turn env spec agents memory_context rnd) sc agent_ids"

text \<open>\<^verbatim>\<open>for rnd in self.spec.rounds\<close>\<close>

definition run_rounds ::
  "Env \<Rightarrow> DebateSpec \<Rightarrow> (string \<rightharpoonup> DebateAgent) \<Rightarrow> string
     \<Rightarrow> DebateState \<times> nat \<Rightarrow> RoundSpec list \<Rightarrow> DebateState \<times> nat" where
  "run_rounds env spec agents memory_context sc rounds =
     foldl (\<lambda>sc rnd. run_agents env spec agents memory_context rnd sc (r_agents rnd)) sc rounds"

text \<open>
  \<^verbatim>\<open>DebateRunner.run\<close> up to \<^verbatim>\<open>state.finished_at = ...\<close>: the initial state, the rounds, the
  final timestamp. \<open>started\<close> and \<open>finished\<close> are the two clock readings; the memory context
  is \<^verbatim>\<open>self.memory.load_context()\<close>, or the empty string without memory. Writing the state,
  the report and the cost files and the memory update follow in the source and do not
  change the moves.
\<close>

definition run ::
  "Env \<Rightarrow> DebateSpec \<Rightarrow> Panel \<Rightarrow> string \<Rightarrow> string \<Rightarrow> MemoryManager option
     \<Rightarrow> string \<Rightarrow> string \<Rightarrow> DebateState" where
  "run env spec panel model synth_model memory started finished =
     (let state =
            \<lparr>s_spec_title = d_title spec, s_panel_name = pn_name panel, s_model = model,
             s_synth_model = synth_model, s_num_experts = len (pn_experts panel),
             s_num_rounds = len (d_rounds spec), s_moves = [], s_started_at = started,
             s_finished_at = '''', s_total_input_tokens = 0, s_total_output_tokens = 0\<rparr>;
          memory_context = (case memory of None \<Rightarrow> '''' | Some mm \<Rightarrow> load_context mm);
          agents = init_agents panel model synth_model;
          sc = run_rounds env spec agents memory_context (state, 1) (d_rounds spec)
      in (fst sc)\<lparr>s_finished_at := finished\<rparr>)"

section \<open>Concrete inputs\<close>

text \<open>The forecast of \<^verbatim>\<open>tests/test_schemas.py::TestForecast\<close> (probability 0.9).\<close>

definition forecast_F1 :: "bool \<Rightarrow> bool option \<Rightarrow> Forecast" where
  "forecast_F1 res out =
     \<lparr>f_id = ''F1'', f_text = ''Test'', f_probability = 9 / 10, f_deadline = ''2026-06-01'',
      f_source_debate = ''Test'', f_source_claim_id = '''', f_resolved = res,
      f_outcome = out, f_resolved_at = '''', f_created_at = ''''\<rparr>"

text \<open>The same forecast with the double that the literal \<^verbatim>\<open>0.9\<close> denotes.\<close>

definition forecast_F1_double :: "bool \<Rightarrow> bool option \<Rightarrow> Forecast" where
  "forecast_F1_double res out = (forecast_F1 res out)\<lparr>f_probability := round_double (9 / 10)\<rparr>"

text \<open>The lessons of \<^verbatim>\<open>tests/test_memory.py::test_load_context\<close> and the stores built on them.\<close>

definition lesson_A :: Lesson where
  "lesson_A = \<lparr>l_id = ''L1'', l_text = ''Lesson A'', l_source_debate = ''Test'',
     l_source_round = 0, l_category = ''methodology'', l_confidence = 8 / 10,
     l_created_at = ''''\<rparr>"

definition lesson_B :: Lesson where
  "lesson_B = \<lparr>l_id = ''L2'', l_text = ''Lesson B'', l_source_debate = ''Test'',
     l_source_round = 0, l_category = ''domain'', l_confidence = 8 / 10,
     l_created_at = ''''\<rparr>"

definition memory_empty :: MemoryManager where
  "memory_empty = \<lparr>bootstrap_file = None, lessons_file = None, forecasts_file = None,
     performance_file = None\<rparr>"

definition memory_AB :: MemoryManager where
  "memory_AB = memory_empty\<lparr>lessons_file := Some [lesson_A, lesson_B]\<rparr>"

definition memory_F1 :: MemoryManager where
  "memory_F1 = memory_empty\<lparr>forecasts_file := Some [forecast_F1 False None]\<rparr>"

text \<open>The debate of \<^verbatim>\<open>tests/test_memory.py::test_update_panel_performance\<close>.\<close>

definition mk_claim :: "string \<Rightarrow> string \<Rightarrow> real \<Rightarrow> Claim" where
  "mk_claim cid text confidence =
     \<lparr>c_id = cid, c_text = text, c_confidence = confidence, c_evidence = [],
      c_assumptions = [], c_stance = ''neutral''\<rparr>"

definition mk_move :: "string \<Rightarrow> string \<Rightarrow> string \<Rightarrow> Claim list \<Rightarrow> string list \<Rightarrow> Move" where
  "mk_move move_id agent_id title claims targets =
     \<lparr>m_move_id = move_id, m_agent_id = agent_id, m_agent_title = title, m_round = 1,
      m_move_type = ''claim'', m_content = '''', m_claims = claims, m_targets = targets,
      m_timestamp = '''', m_input_tokens = 0, m_output_tokens = 0\<rparr>"

definition mk_state :: "Move list \<Rightarrow> DebateState" where
  "mk_state moves =
     \<lparr>s_spec_title = ''Test'', s_panel_name = ''Test'', s_model = ''test'',
      s_synth_model = ''test'', s_num_experts = 2, s_num_rounds = 1, s_moves = moves,
      s_started_at = '''', s_finished_at = '''', s_total_input_tokens = 0,
      s_total_output_tokens = 0\<rparr>"

definition move_M1 :: Move where
  "move_M1 = mk_move ''M1'' ''expert_a'' ''A''
     [mk_claim ''M1_C1'' ''Claim 1'' (8 / 10), mk_claim ''M1_C2'' ''Claim 2'' (6 / 10)] []"

definition move_M2 :: Move where
  "move_M2 = mk_move ''M2'' ''expert_b'' ''B''
     [mk_claim ''M2_C1'' ''Counter'' (9 / 10)] [''M1_C1'']"

definition state_AB :: DebateState where
  "state_AB = mk_state [move_M1, move_M2]"

text \<open>
  A later move of \<open>expert_a\<close> with one claim, and a performance record as the debate
  above leaves it.
\<close>

definition move_M3 :: Move where
  "move_M3 = mk_move ''M3'' ''expert_a'' ''A'' [mk_claim ''M3_C1'' ''Claim 3'' (9 / 10)] []"

definition perf_a :: "int \<Rightarrow> real \<Rightarrow> ExpertPerformance" where
  "perf_a n_total avg =
     \<lparr>p_expert_id = ''expert_a'', p_debates_participated = 1, p_total_claims = n_total,
      p_avg_confidence = avg, p_challenges_received = 0, p_challenges_made = 0\<rparr>"

text \<open>
  A run of two rounds over a panel of two experts. The capability raises for \<open>e2\<close> and
  returns a move without claims for anyone else; every move file is written.
\<close>

definition expert_e1 :: Expert where
  "expert_e1 = \<lparr>x_id = ''e1'', x_name = ''Expert 1'', x_title = ''Title 1'',
     x_background = '''', x_bias = '''', x_lens = '''', x_domain = ''''\<rparr>"

definition expert_e2 :: Expert where
  "expert_e2 = \<lparr>x_id = ''e2'', x_name = ''Expert 2'', x_title = ''Title 2'',
     x_background = '''', x_bias = '''', x_lens = '''', x_domain = ''''\<rparr>"

definition panel_test :: Panel where
  "panel_test = \<lparr>pn_name = ''Test Panel'', pn_description = '''',
     pn_experts = [expert_e1, expert_e2]\<rparr>"

definition round_1 :: RoundSpec where
  "round_1 = \<lparr>r_number = 1, r_focus = ''Opening'', r_question = ''Q1'',
     r_agents = [''e1'', ''e2'']\<rparr>"

definition round_2 :: RoundSpec where
  "round_2 = \<lparr>r_number = 2, r_focus = ''Rebuttal'', r_question = ''Q2'',
     r_agents = [''e1'']\<rparr>"

definition spec_test :: DebateSpec where
  "spec_test = \<lparr>d_title = ''Test'', d_context = ''Context'', d_rounds = [round_1, round_2],
     d_synthesizer_prompt = ''''\<rparr>"

definition agent_of :: "Expert \<Rightarrow> DebateAgent" where
  "agent_of e = \<lparr>a_expert = e, a_model = ''sonnet'', a_is_synthesizer = False\<rparr>"

definition plain_move :: "string \<Rightarrow> string \<Rightarrow> string \<Rightarrow> int \<Rightarrow> Move" where
  "plain_move move_id agent_id title rnd_number =
     \<lparr>m_move_id = move_id, m_agent_id = agent_id, m_agent_title = title,
      m_round = rnd_number, m_move_type = ''claim'', m_content = ''analysis'',
      m_claims = [], m_targets = [], m_timestamp = ''t'', m_input_tokens = 10,
      m_output_tokens = 5\<rparr>"

definition env_test :: Env where
  "env_test =
     \<lparr>make_move = (\<lambda>agent rnd context prior move_id memory_context prompt.
        if x_id (a_expert agent) = ''e2'' then Inl ''boom''
        else Inr (plain_move move_id (x_id (a_expert agent)) (display_title (a_expert agent))
                    (r_number rnd))),
      write_move = (\<lambda>move_counter rnd_number agent_id move. None),
      clock = (\<lambda>move_counter. ''t'')\<rparr>"

section \<open>Properties of the data model\<close>

lemma foldl_plus_sum_list: "foldl (+) a xs = a + sum_list (xs :: 'a::monoid_add list)"
  by (induction xs arbitrary: a) (simp_all add: add.assoc)

lemma py_sum_sum_list: "py_sum xs = sum_list xs"
  by (simp add: py_sum_def foldl_plus_sum_list)

text \<open>
  C3. For every DebateState the derived \<open>total_claims\<close> is the sum, over all moves, of the
  length of the move's claims list.
\<close>

theorem total_claims_is_sum_of_claim_counts:
  "total_claims s = (\<Sum>m\<leftarrow>s_moves s. int (length (m_claims m)))"
  by (simp add: total_claims_def py_sum_sum_list len_def)

subsection \<open>Rounding to double precision\<close>

lemma bit_length_pos: "0 < n \<Longrightarrow> 0 < bit_length n"
  by (simp add: bit_length.simps [of n])

lemma bit_length_bounds: "0 < n \<Longrightarrow> 2 ^ (bit_length n - 1) \<le> n \<and> n < 2 ^ bit_length n"
proof (induction n rule: bit_length.induct)
  case (1 n)
  show ?case
  proof (cases "n div 2 = 0")
    case True
    with 1(2) have "n = 1" by (simp add: div_eq_0_iff)
    then show ?thesis by (simp add: bit_length.simps)
  next
    case False
    then have "0 < n div 2" by simp
    with 1 have IH: "2 ^ (bit_length (n div 2) - 1) \<le> n div 2"
      "n div 2 < 2 ^ bit_length (n div 2)"
      by auto
    have pos: "0 < bit_length (n div 2)"
      using False by (simp add: bit_length.simps [of "n div 2"])
    have eq: "bit_length n = Suc (bit_length (n div 2))"
      using 1(2) by (simp add: bit_length.simps [of n])
    have "2 * 2 ^ (bit_length (n div 2) - 1) \<le> n"
      using IH(1) by linarith
    moreover have "2 * 2 ^ (bit_length (n div 2) - 1) = (2::nat) ^ bit_length (n div 2)"
      using pos by (cases "bit_length (n div 2)") simp_all
    moreover have "n < 2 * 2 ^ bit_length (n div 2)"
      using IH(2) by linarith
    ultimately show ?thesis
      by (simp add: eq)
  qed
qed

text \<open>\<open>exponent\<close> is the binary exponent.\<close>

lemma exponent_bounds:
  assumes "x \<noteq> 0"
  shows "2 powi exponent x \<le> \<bar>x\<bar> \<and> \<bar>x\<bar> < 2 powi (exponent x + 1)"
proof (cases "1 \<le> \<bar>x\<bar>")
  case True
  define n where "n = nat \<lfloor>\<bar>x\<bar>\<rfloor>"
  have n: "0 < n" "real n \<le> \<bar>x\<bar>" "\<bar>x\<bar> < real n + 1"
    using True by (simp_all add: n_def; linarith)+
  have e: "exponent x = int (bit_length n) - 1"
    using True by (simp add: exponent_def n_def)
  have b: "2 ^ (bit_length n - 1) \<le> n" "n < 2 ^ bit_length n"
    using bit_length_bounds [OF n(1)] by simp_all
  have pos: "0 < bit_length n" using n(1) by (rule bit_length_pos)
  have e1: "exponent x = int (bit_length n - 1)"
    using pos e by simp
  have "(2::real) powi exponent x = 2 ^ (bit_length n - 1)"
    unfolding e1 by simp
  also have "\<dots> = real (2 ^ (bit_length n - 1))" by simp
  also have "\<dots> \<le> real n" using b(1) by (simp only: of_nat_le_iff)
  finally have lo: "2 powi exponent x \<le> \<bar>x\<bar>" using n(2) by simp
  have e2: "exponent x + 1 = int (bit_length n)" using e by simp
  have "real n + 1 \<le> real (2 ^ bit_length n)"
    using b(2) by (metis Suc_leI of_nat_Suc of_nat_le_iff add.commute)
  then have "\<bar>x\<bar> < 2 ^ bit_length n" using n(3) by simp
  then have hi: "\<bar>x\<bar> < 2 powi (exponent x + 1)"
    unfolding e2 by simp
  from lo hi show ?thesis by simp
next
  case False
  define y where "y = 1 / \<bar>x\<bar>"
  define n where "n = nat (\<lceil>y\<rceil> - 1)"
  have x: "0 < \<bar>x\<bar>" "\<bar>x\<bar> < 1" using assms False by simp_all
  have y: "1 < y" using x by (simp add: y_def)
  have c: "2 \<le> \<lceil>y\<rceil>" using y by linarith
  have n: "0 < n" "real n < y" "y \<le> real n + 1"
    using c by (simp_all add: n_def; linarith)+
  have e: "exponent x = - int (bit_length n)"
    using False by (simp add: exponent_def n_def y_def)
  have b: "2 ^ (bit_length n - 1) \<le> n" "n < 2 ^ bit_length n"
    using bit_length_bounds [OF n(1)] by simp_all
  have pos: "0 < bit_length n" using n(1) by (rule bit_length_pos)
  have "real n + 1 \<le> real (2 ^ bit_length n)"
    using b(2) by (metis Suc_leI of_nat_Suc of_nat_le_iff add.commute)
  then have yhi: "y \<le> 2 ^ bit_length n" using n(3) by simp
  have "(2::real) ^ (bit_length n - 1) \<le> real n"
    using b(1) by (metis of_nat_le_iff of_nat_power of_nat_numeral)
  then have ylo: "2 ^ (bit_length n - 1) < y" using n(2) by linarith
  have xy: "\<bar>x\<bar> = 1 / y" using x by (simp add: y_def)
  have "1 / 2 ^ bit_length n \<le> 1 / y"
    using yhi y by (intro divide_left_mono) simp_all
  then have lo: "2 powi exponent x \<le> \<bar>x\<bar>"
    unfolding e xy by (simp add: power_int_minus field_simps)
  have e2: "exponent x + 1 = - int (bit_length n - 1)" using e pos by simp
  have "1 / y < 1 / 2 ^ (bit_length n - 1)"
    using ylo y by (intro divide_strict_left_mono) simp_all
  then have hi: "\<bar>x\<bar> < 2 powi (exponent x + 1)"
    unfolding e2 xy by (simp add: power_int_minus field_simps)
  from lo hi show ?thesis by simp
qed

lemma round_half_even_error: "\<bar>of_int (round_half_even y) - y\<bar> \<le> 1 / 2"
  unfolding round_half_even_def Let_def by (auto; linarith)

lemma round_half_even_bound:
  assumes "\<bar>y\<bar> \<le> of_int N"
  shows "\<bar>round_half_even y\<bar> \<le> N"
proof -
  have 1: "\<lfloor>y\<rfloor> \<le> N" "- N \<le> \<lfloor>y\<rfloor>" using assms by linarith+
  have 2: "y - of_int \<lfloor>y\<rfloor> \<noteq> 0 \<Longrightarrow> \<lfloor>y\<rfloor> + 1 \<le> N"
    using assms by linarith
  show ?thesis
    unfolding round_half_even_def Let_def using 1 2 by auto
qed

text \<open>
  On the interval from -1 to 1 rounding moves a real by at most \<open>2 ^ (- 53)\<close> and stays in
  the interval.
\<close>

lemma round_double_unit:
  assumes "\<bar>x\<bar> \<le> 1"
  shows "\<bar>round_double x - x\<bar> \<le> 1 / 2 ^ 53 \<and> \<bar>round_double x\<bar> \<le> 1"
proof (cases "x = 0")
  case True
  then show ?thesis by (simp add: round_double_def)
next
  case False
  define e where "e = max (exponent x) (- 1022)"
  define ulp :: real where "ulp = 2 powi (e - 52)"
  have rd: "round_double x = of_int (round_half_even (x / ulp)) * ulp"
    using False by (simp add: round_double_def Let_def e_def ulp_def)
  have small: "2 powi exponent x \<le> (1::real)"
    using exponent_bounds [OF False] assms by linarith
  have "exponent x \<le> 0"
  proof (rule ccontr)
    assume "\<not> exponent x \<le> 0"
    then have "1 \<le> exponent x" by simp
    then have "(2::real) powi 1 \<le> 2 powi exponent x"
      by (intro power_int_increasing) simp_all
    with small show False by simp
  qed
  then have e0: "e \<le> 0" by (simp add: e_def)
  have upos: "0 < ulp" by (simp add: ulp_def)
  have ule: "ulp \<le> 2 powi (- 52)"
    unfolding ulp_def using e0 by (intro power_int_increasing) simp_all
  define N :: int where "N = 2 ^ nat (52 - e)"
  have N: "of_int N * ulp = 1"
    using e0 by (simp add: N_def ulp_def power_int_def nat_diff_distrib' field_simps split: if_splits)
  have "\<bar>x / ulp\<bar> \<le> 1 / ulp" using assms upos by (simp add: divide_right_mono)
  also have "1 / ulp = of_int N" using N upos by (simp add: field_simps)
  finally have "\<bar>round_half_even (x / ulp)\<bar> \<le> N" by (rule round_half_even_bound)
  then have "\<bar>of_int (round_half_even (x / ulp)) :: real\<bar> \<le> of_int N"
    by (metis of_int_abs of_int_le_iff)
  then have "\<bar>round_double x\<bar> \<le> of_int N * ulp"
    unfolding rd using upos by (simp add: abs_mult mult_right_mono)
  then have bound: "\<bar>round_double x\<bar> \<le> 1" by (simp add: N)
  have "\<bar>of_int (round_half_even (x / ulp)) - x / ulp\<bar> \<le> 1 / 2"
    by (rule round_half_even_error)
  then have "\<bar>of_int (round_half_even (x / ulp)) - x / ulp\<bar> * ulp \<le> 1 / 2 * ulp"
    using upos by (intro mult_right_mono) simp_all
  moreover have "\<bar>of_int (round_half_even (x / ulp)) - x / ulp\<bar> * ulp = \<bar>round_double x - x\<bar>"
  proof -
    have "(of_int (round_half_even (x / ulp)) - x / ulp) * ulp = round_double x - x"
      unfolding rd using upos by (simp add: left_diff_distrib)
    then have "\<bar>round_double x - x\<bar> =
        \<bar>of_int (round_half_even (x / ulp)) - x / ulp\<bar> * \<bar>ulp\<bar>"
      by (simp only: abs_mult [symmetric])
    then show ?thesis using upos by simp
  qed
  ultimately have "\<bar>round_double x - x\<bar> \<le> 1 / 2 * ulp" by simp
  also have "\<dots> \<le> 1 / 2 * 2 powi (- 52)" using ule by simp
  also have "\<dots> = 1 / 2 ^ 53" by (simp add: power_int_minus field_simps)
  finally have err: "\<bar>round_double x - x\<bar> \<le> 1 / 2 ^ 53" .
  from err bound show ?thesis by simp
qed

text \<open>
  The square of a difference of magnitude at most 1, as the doubles compute it: no
  overflow, and within \<open>2 ^ (- 51)\<close> of the exact square.
\<close>

lemma float_pow2_sub_unit:
  assumes "\<bar>x - y\<bar> \<le> 1"
  shows "\<exists>v. float_pow2 (float_sub x y) = Inr v \<and> \<bar>v - (x - y)\<^sup>2\<bar> \<le> 1 / 2 ^ 51"
proof -
  define d where "d = x - y"
  define d' where "d' = round_double d"
  define s where "s = d' * d'"
  have d: "\<bar>d\<bar> \<le> 1" using assms by (simp add: d_def)
  have d': "\<bar>d' - d\<bar> \<le> 1 / 2 ^ 53" "\<bar>d'\<bar> \<le> 1"
    using round_double_unit [OF d] by (simp_all add: d'_def)
  have "\<bar>s\<bar> = \<bar>d'\<bar> * \<bar>d'\<bar>"
    by (simp add: s_def abs_mult)
  also have "\<dots> \<le> 1 * 1"
    using d'(2) by (intro mult_mono) simp_all
  finally have s: "\<bar>s\<bar> \<le> 1" by simp
  have r: "\<bar>round_double s - s\<bar> \<le> 1 / 2 ^ 53" "\<bar>round_double s\<bar> \<le> 1"
    using round_double_unit [OF s] by simp_all
  have "s - d\<^sup>2 = (d' - d) * (d' + d)"
    by (simp add: s_def power2_eq_square algebra_simps)
  then have "\<bar>s - d\<^sup>2\<bar> = \<bar>d' - d\<bar> * \<bar>d' + d\<bar>"
    by (simp only: abs_mult)
  also have "\<dots> \<le> 1 / 2 ^ 53 * 2"
    using d'(1) d'(2) d by (intro mult_mono) simp_all
  finally have sd: "\<bar>s - d\<^sup>2\<bar> \<le> 1 / 2 ^ 52" by simp
  have "\<bar>round_double s - d\<^sup>2\<bar> \<le> \<bar>round_double s - s\<bar> + \<bar>s - d\<^sup>2\<bar>"
    by simp
  also have "\<dots> \<le> 1 / 2 ^ 53 + 1 / 2 ^ 52" using r(1) sd by (rule add_mono)
  also have "\<dots> \<le> 1 / 2 ^ 51" by simp
  finally have err: "\<bar>round_double s - d\<^sup>2\<bar> \<le> 1 / 2 ^ 51" .
  have "(1::real) < 2 ^ 1024"
    by (rule one_less_power) simp_all
  then have "round_double s < 2 ^ 1024"
    using r(2) by linarith
  then have "float_pow2 (float_sub x y) = Inr (round_double s)"
    by (simp add: float_pow2_def float_sub_def Let_def s_def d'_def d_def)
  with err show ?thesis by (simp add: d_def)
qed

text \<open>The doubles of the decimal literals 0.9, 0.01 and 0.81, and the two squares.\<close>

lemma round_double_literals:
  "round_double (9 / 10) = 8106479329266893 / 2 ^ 53"
  "round_double (1 / 100) = 5764607523034235 / 2 ^ 59"
  "round_double (81 / 100) = 7295831396340204 / 2 ^ 53"
  by code_simp+

lemma float_sub_literal:
  "float_sub (8106479329266893 / 2 ^ 53) 1 = - (900719925474099 / 2 ^ 53)"
  by code_simp

lemma float_pow2_literals:
  "float_pow2 (float_sub (8106479329266893 / 2 ^ 53) 1) = Inr (5764607523034232 / 2 ^ 59)"
  "float_pow2 (float_sub (8106479329266893 / 2 ^ 53) 0) = Inr (7295831396340204 / 2 ^ 53)"
  by code_simp+

subsection \<open>The Brier score\<close>

text \<open>
  C4, as the code has it. The Brier score of a forecast is absent when the forecast is
  unresolved or its outcome is empty. For a resolved forecast with outcome \<open>b\<close> it is the
  expression \<open>(probability - actual)\<^sup>2\<close>, \<open>actual\<close> being 1 for outcome true and 0 for outcome
  false, which Python evaluates in double precision: for a probability from 0 to 1 the
  result is a double within \<open>2 ^ (- 51)\<close> of the exact square. For the double of the literal
  0.9 and outcome true the result is \<open>5764607523034232 / 2 ^ 59\<close>, printed
  0.009999999999999995, which is 0.01 to within \<open>10 ^ (- 17)\<close>; for outcome false it is the
  double of the literal 0.81.
\<close>

theorem brier_score_spec:
  "(\<not> f_resolved f \<or> f_outcome f = None \<longrightarrow>
      brier_score f = None \<and> brier_score_double f = Inr None) \<and>
   (f_resolved f \<and> f_outcome f = Some b \<longrightarrow>
      brier_score f = Some ((f_probability f - (if b then 1 else 0))\<^sup>2)) \<and>
   (f_resolved f \<and> f_outcome f = Some b \<and> 0 \<le> f_probability f \<and> f_probability f \<le> 1 \<longrightarrow>
      (\<exists>v. brier_score_double f = Inr (Some v) \<and>
           \<bar>v - (f_probability f - (if b then 1 else 0))\<^sup>2\<bar> \<le> 1 / 2 ^ 51)) \<and>
   (f_resolved f \<and> f_probability f = round_double (9 / 10) \<and> f_outcome f = Some True \<longrightarrow>
      brier_score_double f = Inr (Some (5764607523034232 / 2 ^ 59)) \<and>
      \<bar>5764607523034232 / 2 ^ 59 - 1 / 100\<bar> \<le> (1 / 10 ^ 17 :: real)) \<and>
   (f_resolved f \<and> f_probability f = round_double (9 / 10) \<and> f_outcome f = Some False \<longrightarrow>
      brier_score_double f = Inr (Some (round_double (81 / 100))))"
proof (intro conjI impI)
  assume "\<not> f_resolved f \<or> f_outcome f = None"
  then show "brier_score f = None"
    by (auto simp: brier_score_def)
next
  assume "\<not> f_resolved f \<or> f_outcome f = None"
  then show "brier_score_double f = Inr None"
    by (auto simp: brier_score_double_def)
next
  assume "f_resolved f \<and> f_outcome f = Some b"
  then show "brier_score f = Some ((f_probability f - (if b then 1 else 0))\<^sup>2)"
    by (simp add: brier_score_def)
next
  assume a: "f_resolved f \<and> f_outcome f = Some b \<and> 0 \<le> f_probability f \<and> f_probability f \<le> 1"
  then have r: "f_resolved f" and out: "f_outcome f = Some b"
    and p: "0 \<le> f_probability f" "f_probability f \<le> 1"
    by blast+
  define actual :: real where "actual = (if b then 1 else 0)"
  have "\<bar>f_probability f - actual\<bar> \<le> 1"
    using p by (simp add: actual_def)
  then obtain v where v: "float_pow2 (float_sub (f_probability f) actual) = Inr v"
    "\<bar>v - (f_probability f - actual)\<^sup>2\<bar> \<le> 1 / 2 ^ 51"
    using float_pow2_sub_unit by blast
  have "brier_score_double f = Inr (Some v)"
    using r out v(1) by (simp add: brier_score_double_def actual_def)
  with v(2) show "\<exists>v. brier_score_double f = Inr (Some v) \<and>
      \<bar>v - (f_probability f - (if b then 1 else 0))\<^sup>2\<bar> \<le> 1 / 2 ^ 51"
    unfolding actual_def by blast
next
  assume a: "f_resolved f \<and> f_probability f = round_double (9 / 10) \<and> f_outcome f = Some True"
  then have p: "f_probability f = 8106479329266893 / 2 ^ 53" and r: "f_resolved f" and
    out: "f_outcome f = Some True"
    by (simp_all only: round_double_literals)
  show "brier_score_double f = Inr (Some (5764607523034232 / 2 ^ 59))"
    unfolding brier_score_double_def p Let_def
    by (simp only: r out float_pow2_literals if_True if_False not_True_eq_False option.case sum.case)
next
  show "\<bar>5764607523034232 / 2 ^ 59 - 1 / 100\<bar> \<le> (1 / 10 ^ 17 :: real)"
    by simp
next
  assume a: "f_resolved f \<and> f_probability f = round_double (9 / 10) \<and> f_outcome f = Some False"
  then have p: "f_probability f = 8106479329266893 / 2 ^ 53" and r: "f_resolved f" and
    out: "f_outcome f = Some False"
    by (simp_all only: round_double_literals)
  show "brier_score_double f = Inr (Some (round_double (81 / 100)))"
    unfolding brier_score_double_def p Let_def
    by (simp only: r out float_pow2_literals round_double_literals if_True if_False
        not_True_eq_False option.case sum.case)
qed

lemma forecast_F1_double_fields:
  "f_resolved (forecast_F1_double res out) = res"
  "f_outcome (forecast_F1_double res out) = out"
  "f_probability (forecast_F1_double res out) = round_double (9 / 10)"
  by (simp_all add: forecast_F1_double_def forecast_F1_def)

theorem brier_score_spec_witness:
  "brier_score (forecast_F1_double False None) = None \<and>
   brier_score_double (forecast_F1_double False None) = Inr None \<and>
   brier_score_double (forecast_F1_double True None) = Inr None \<and>
   brier_score (forecast_F1_double True (Some True)) = Some ((round_double (9 / 10) - 1)\<^sup>2) \<and>
   (\<exists>v. brier_score_double (forecast_F1_double True (Some True)) = Inr (Some v) \<and>
        \<bar>v - (round_double (9 / 10) - 1)\<^sup>2\<bar> \<le> 1 / 2 ^ 51) \<and>
   brier_score_double (forecast_F1_double True (Some True)) =
     Inr (Some (5764607523034232 / 2 ^ 59)) \<and>
   brier_score_double (forecast_F1_double True (Some False)) =
     Inr (Some (round_double (81 / 100)))"
proof -
  have range: "0 \<le> round_double (9 / 10)" "round_double (9 / 10) \<le> 1"
    by (simp_all add: round_double_literals)
  note unresolved = brier_score_spec [of "forecast_F1_double False None" True]
  note empty = brier_score_spec [of "forecast_F1_double True None" True]
  note happened = brier_score_spec [of "forecast_F1_double True (Some True)" True]
  note failed = brier_score_spec [of "forecast_F1_double True (Some False)" False]
  have 1: "brier_score (forecast_F1_double False None) = None"
    "brier_score_double (forecast_F1_double False None) = Inr None"
    using unresolved [THEN conjunct1] by (simp_all add: forecast_F1_double_fields)
  have 2: "brier_score_double (forecast_F1_double True None) = Inr None"
    using empty [THEN conjunct1] by (simp add: forecast_F1_double_fields)
  have 3: "brier_score (forecast_F1_double True (Some True)) =
      Some ((round_double (9 / 10) - 1)\<^sup>2)"
    using happened [THEN conjunct2, THEN conjunct1]
    by (simp add: forecast_F1_double_fields)
  have 4: "\<exists>v. brier_score_double (forecast_F1_double True (Some True)) = Inr (Some v) \<and>
        \<bar>v - (round_double (9 / 10) - 1)\<^sup>2\<bar> \<le> 1 / 2 ^ 51"
    using happened [THEN conjunct2, THEN conjunct2, THEN conjunct1] range
    by (simp add: forecast_F1_double_fields)
  have 5: "brier_score_double (forecast_F1_double True (Some True)) =
      Inr (Some (5764607523034232 / 2 ^ 59))"
    using happened [THEN conjunct2, THEN conjunct2, THEN conjunct2, THEN conjunct1]
    by (simp add: forecast_F1_double_fields)
  have 6: "brier_score_double (forecast_F1_double True (Some False)) =
      Inr (Some (round_double (81 / 100)))"
    using failed [THEN conjunct2, THEN conjunct2, THEN conjunct2, THEN conjunct2]
    by (simp add: forecast_F1_double_fields)
  from 1 2 3 4 5 6 show ?thesis by blast
qed

text \<open>
  C4 as the specification states it, probability 0.9 with outcome true giving 0.01, fails
  in the arithmetic of the code: the result is three doubles below the double of the
  literal 0.01, and it is not the real 1/100 either. The exact square of the difference
  is itself more than two doubles away from the double of 0.01 (whose neighbours are
  \<open>2 ^ (- 59)\<close> apart), so no rounding of the square gives 0.01.
\<close>

theorem brier_score_double_literal_counterexample:
  "brier_score_double (forecast_F1_double True (Some True)) \<noteq>
     Inr (Some (round_double (1 / 100))) \<and>
   brier_score_double (forecast_F1_double True (Some True)) \<noteq> Inr (Some (1 / 100)) \<and>
   2 / 2 ^ 59 < \<bar>round_double (1 / 100) - (float_sub (round_double (9 / 10)) 1)\<^sup>2\<bar>"
proof -
  have computed: "brier_score_double (forecast_F1_double True (Some True)) =
      Inr (Some (5764607523034232 / 2 ^ 59))"
    unfolding brier_score_double_def forecast_F1_double_fields Let_def
    by (simp only: round_double_literals float_pow2_literals if_True if_False
        not_True_eq_False option.case sum.case)
  have away: "2 / 2 ^ 59 <
      \<bar>round_double (1 / 100) - (float_sub (round_double (9 / 10)) 1)\<^sup>2\<bar>"
    unfolding round_double_literals float_sub_literal by (simp add: power2_eq_square)
  show ?thesis
    unfolding computed round_double_literals using away
    by (simp add: round_double_literals)
qed

section \<open>Properties of the dictionary conversion\<close>

lemma bind_e_simps [simp]: "bind_e (Inl e) k = Inl e" "bind_e (Inr x) k = k x"
  by (simp_all add: bind_e_def)

lemma mapM_roundtrip: "(\<And>x. f (g x) = Inr x) \<Longrightarrow> mapM f (map g xs) = Inr xs"
  by (induction xs) simp_all

lemma Evidence_roundtrip: "Evidence_kwargs (Evidence_to_dict e) = Inr e"
  by (simp add: Evidence_to_dict_def)

lemma Claim_roundtrip: "Claim_from_dict (Claim_to_dict c) = Inr c"
  by (simp add: Claim_to_dict_def Claim_from_dict_def mapM_roundtrip Evidence_roundtrip)

lemma Move_roundtrip: "Move_from_dict (Move_to_dict m) = Inr m"
  by (simp add: Move_to_dict_def Move_from_dict_def mapM_roundtrip Claim_roundtrip)

text \<open>
  C2. Deserializing the serialized form of a DebateState succeeds and gives the state back:
  every field, the moves in their order, and inside each move its claims and their
  evidence. The same holds for a single Move.
\<close>

theorem DebateState_roundtrip:
  "DebateState_from_dict (DebateState_to_dict s) = Inr s \<and>
   Move_from_dict (Move_to_dict m) = Inr m"
  by (simp add: DebateState_to_dict_def DebateState_from_dict_def mapM_roundtrip Move_roundtrip)

text \<open>
  C10. A dictionary with no keys deserializes to the defaults, but a missing field can make
  deserialization fail: an evidence entry without the key \<open>source\<close> raises
  \<^verbatim>\<open>TypeError\<close> in \<^verbatim>\<open>Evidence(**e)\<close>, from \<^verbatim>\<open>Move.from_dict\<close> and from
  \<^verbatim>\<open>DebateState.from_dict\<close>.
\<close>

theorem from_dict_missing_source:
  "Move_from_dict (JDict [(''claims'', JList [JDict [(''evidence'', JList [JDict []])]])])
     = Inl TypeError \<and>
   Move_from_dict
     (JDict [(''claims'',
        JList [JDict [(''evidence'', JList [JDict [(''quote'', JStr ''q'')]])]])])
     = Inl TypeError \<and>
   DebateState_from_dict
     (JDict [(''moves'',
        JList [JDict [(''claims'', JList [JDict [(''evidence'', JList [JDict []])]])]])])
     = Inl TypeError \<and>
   Move_from_dict (JDict []) =
     Inr \<lparr>m_move_id = '''', m_agent_id = '''', m_agent_title = '''', m_round = 0,
          m_move_type = ''claim'', m_content = '''', m_claims = [], m_targets = [],
          m_timestamp = '''', m_input_tokens = 0, m_output_tokens = 0\<rparr> \<and>
   DebateState_from_dict (JDict []) =
     Inr \<lparr>s_spec_title = '''', s_panel_name = '''', s_model = '''', s_synth_model = '''',
          s_num_experts = 0, s_num_rounds = 0, s_moves = [], s_started_at = '''',
          s_finished_at = '''', s_total_input_tokens = 0, s_total_output_tokens = 0\<rparr>"
  by (simp add: Move_from_dict_def Claim_from_dict_def DebateState_from_dict_def)

section \<open>Properties of the memory manager\<close>

subsection \<open>Forecast resolution\<close>

lemma resolve_loop_absent:
  "forecast_id \<notin> f_id ` set fs \<Longrightarrow> resolve_loop forecast_id outcome now fs = fs"
  by (induction fs) auto

lemma resolve_loop_twice:
  "resolve_loop fid o2 t2 (resolve_loop fid o1 t1 fs) = resolve_loop fid o2 t2 fs"
  by (induction fs) auto

lemma find_resolve_loop:
  "find (\<lambda>f. f_id f = fid) fs = Some f0 \<Longrightarrow>
   find (\<lambda>f. f_id f = fid) (resolve_loop fid outcome now fs) =
     Some (f0\<lparr>f_resolved := True, f_outcome := Some outcome, f_resolved_at := now\<rparr>)"
  by (induction fs) (auto split: if_splits)

text \<open>
  C7. When no forecast has the given id, \<open>resolve_forecast\<close> writes the collection back as
  it read it: the forecasts loaded afterwards are the forecasts loaded before, and no other
  file of the store changes.
\<close>

theorem resolve_forecast_unknown_id:
  assumes "forecast_id \<notin> f_id ` set (load_forecasts mm)"
  shows "load_forecasts (resolve_forecast mm forecast_id outcome now) = load_forecasts mm \<and>
         forecasts_file (resolve_forecast mm forecast_id outcome now)
           = Some (load_forecasts mm) \<and>
         bootstrap_file (resolve_forecast mm forecast_id outcome now) = bootstrap_file mm \<and>
         lessons_file (resolve_forecast mm forecast_id outcome now) = lessons_file mm \<and>
         performance_file (resolve_forecast mm forecast_id outcome now) = performance_file mm"
  using assms
  by (simp add: resolve_forecast_def save_forecasts_def load_forecasts_def
      resolve_loop_absent split: option.splits)

theorem resolve_forecast_unknown_id_witness:
  "load_forecasts (resolve_forecast memory_F1 ''F2'' True ''2026-01-01'') =
     [forecast_F1 False None]"
  using resolve_forecast_unknown_id [of "''F2''" memory_F1 True "''2026-01-01''"]
  by (simp add: memory_F1_def memory_empty_def load_forecasts_def forecast_F1_def)

text \<open>
  C8. Resolving a stored forecast twice leaves the store as the second resolution alone
  would: the forecast found under the id carries the second outcome and the second
  \<open>resolved_at\<close>, and its Brier score is computed from the second outcome. The function is
  total, so the second resolution is no error.
\<close>

theorem resolve_forecast_last_write_wins:
  assumes "find (\<lambda>f. f_id f = fid) (load_forecasts mm) = Some f0"
  shows "resolve_forecast (resolve_forecast mm fid o1 t1) fid o2 t2
           = resolve_forecast mm fid o2 t2 \<and>
         find (\<lambda>f. f_id f = fid)
           (load_forecasts (resolve_forecast (resolve_forecast mm fid o1 t1) fid o2 t2)) =
           Some (f0\<lparr>f_resolved := True, f_outcome := Some o2, f_resolved_at := t2\<rparr>) \<and>
         brier_score (f0\<lparr>f_resolved := True, f_outcome := Some o2, f_resolved_at := t2\<rparr>) =
           Some ((f_probability f0 - (if o2 then 1 else 0))\<^sup>2)"
proof (intro conjI)
  show twice: "resolve_forecast (resolve_forecast mm fid o1 t1) fid o2 t2
                 = resolve_forecast mm fid o2 t2"
    by (simp add: resolve_forecast_def save_forecasts_def load_forecasts_def resolve_loop_twice)
  show "find (\<lambda>f. f_id f = fid)
           (load_forecasts (resolve_forecast (resolve_forecast mm fid o1 t1) fid o2 t2)) =
         Some (f0\<lparr>f_resolved := True, f_outcome := Some o2, f_resolved_at := t2\<rparr>)"
    unfolding twice
    using assms find_resolve_loop [of fid "load_forecasts mm" f0 o2 t2]
    by (simp add: resolve_forecast_def save_forecasts_def load_forecasts_def)
  show "brier_score (f0\<lparr>f_resolved := True, f_outcome := Some o2, f_resolved_at := t2\<rparr>) =
         Some ((f_probability f0 - (if o2 then 1 else 0))\<^sup>2)"
    by (simp add: brier_score_def)
qed

theorem resolve_forecast_last_write_wins_witness:
  "find (\<lambda>f. f_id f = ''F1'')
     (load_forecasts
        (resolve_forecast (resolve_forecast memory_F1 ''F1'' True ''t1'') ''F1'' False ''t2'')) =
     Some ((forecast_F1 True (Some False))\<lparr>f_resolved_at := ''t2''\<rparr>) \<and>
   brier_score ((forecast_F1 True (Some False))\<lparr>f_resolved_at := ''t2''\<rparr>) = Some (81 / 100)"
proof -
  have stored: "find (\<lambda>f. f_id f = ''F1'') (load_forecasts memory_F1) = Some (forecast_F1 False None)"
    by (simp add: memory_F1_def memory_empty_def load_forecasts_def forecast_F1_def)
  note last = resolve_forecast_last_write_wins [OF stored, of True "''t1''" False "''t2''"]
  have found: "find (\<lambda>f. f_id f = ''F1'')
     (load_forecasts
        (resolve_forecast (resolve_forecast memory_F1 ''F1'' True ''t1'') ''F1'' False ''t2'')) =
     Some ((forecast_F1 True (Some False))\<lparr>f_resolved_at := ''t2''\<rparr>)"
    using last [THEN conjunct2, THEN conjunct1] by (simp add: forecast_F1_def)
  have score: "brier_score ((forecast_F1 True (Some False))\<lparr>f_resolved_at := ''t2''\<rparr>)
      = Some (81 / 100)"
    using last [THEN conjunct2, THEN conjunct2] by (simp add: forecast_F1_def power2_eq_square)
  from found score show ?thesis by (rule conjI)
qed

subsection \<open>The memory context\<close>

lemma last_n_suffix: "xs = take (length xs - n) xs @ last_n n xs"
  by (simp add: last_n_def)

lemma length_last_n: "length (last_n n xs) = min n (length xs)"
  by (simp add: last_n_def)

text \<open>
  C9, as the code has it. The lessons are the bootstrap lessons followed by the learned
  ones. With no lesson the context is the empty string. Otherwise it is one entry
  \<open>- [category] text\<close> per lesson of the last 20 lessons of that sequence (all of them when
  there are fewer), joined by newlines, in the order of the sequence: the oldest lesson of
  the slice first, the most recent last.
\<close>

theorem load_context_spec:
  "load_lessons mm = (case bootstrap_file mm of None \<Rightarrow> [] | Some b \<Rightarrow> b) @
                     (case lessons_file mm of None \<Rightarrow> [] | Some l \<Rightarrow> l) \<and>
   (load_lessons mm = [] \<longrightarrow> load_context mm = '''') \<and>
   (load_lessons mm \<noteq> [] \<longrightarrow>
      (\<exists>older slice.
         load_lessons mm = older @ slice \<and>
         length slice = min 20 (length (load_lessons mm)) \<and>
         load_context mm =
           join [CHR 0x0A] (map (\<lambda>l. ''- ['' @ l_category l @ ''] '' @ l_text l) slice)))"
proof (intro conjI impI)
  show "load_lessons mm = (case bootstrap_file mm of None \<Rightarrow> [] | Some b \<Rightarrow> b) @
                     (case lessons_file mm of None \<Rightarrow> [] | Some l \<Rightarrow> l)"
    by (simp add: load_lessons_def split: option.splits)
next
  assume "load_lessons mm = []"
  then show "load_context mm = ''''"
    by (simp add: load_context_def)
next
  let ?xs = "load_lessons mm"
  assume ne: "?xs \<noteq> []"
  have "?xs = take (length ?xs - 20) ?xs @ last_n 20 ?xs"
    by (rule last_n_suffix)
  moreover have "length (last_n 20 ?xs) = min 20 (length ?xs)"
    by (rule length_last_n)
  moreover have "load_context mm =
      join [CHR 0x0A] (map (\<lambda>l. ''- ['' @ l_category l @ ''] '' @ l_text l) (last_n 20 ?xs))"
    using ne by (simp add: load_context_def lesson_line_def [abs_def] Let_def)
  ultimately show "\<exists>older slice.
         ?xs = older @ slice \<and>
         length slice = min 20 (length ?xs) \<and>
         load_context mm =
           join [CHR 0x0A] (map (\<lambda>l. ''- ['' @ l_category l @ ''] '' @ l_text l) slice)"
    by blast
qed

lemma load_context_AB:
  "load_context memory_AB = ''- [methodology] Lesson A'' @ [CHR 0x0A] @ ''- [domain] Lesson B''"
  by (simp add: load_context_def memory_AB_def memory_empty_def load_lessons_def last_n_def
      lesson_line_def lesson_A_def lesson_B_def)

theorem load_context_spec_witness:
  "load_context memory_empty = '''' \<and>
   load_lessons memory_AB = [lesson_A, lesson_B] \<and>
   load_context memory_AB = ''- [methodology] Lesson A'' @ [CHR 0x0A] @ ''- [domain] Lesson B''"
  using load_context_spec [of memory_empty] load_context_spec [of memory_AB]
  by (simp add: load_context_AB) (simp add: memory_AB_def memory_empty_def load_lessons_def)

text \<open>
  C9 as the specification states it, most recent first within the slice, fails: for the
  store holding Lesson A then Lesson B the context lists A before B.
\<close>

theorem load_context_most_recent_first_counterexample:
  "load_context memory_AB \<noteq>
     join [CHR 0x0A] (map lesson_line (rev (last_n 20 (load_lessons memory_AB))))"
  by (simp add: load_context_def memory_AB_def memory_empty_def load_lessons_def last_n_def
      lesson_line_def lesson_A_def lesson_B_def)

subsection \<open>Panel performance\<close>

lemma count_received_Nil [simp]: "count_received tg p [] = p"
  by (simp add: count_received_def)

lemma count_received_Cons [simp]:
  "count_received tg p (c # cs) =
     count_received tg
       (if tg (c_id c) \<noteq> None then p\<lparr>p_challenges_received := p_challenges_received p + 1\<rparr>
        else p) cs"
  by (simp add: count_received_def)

lemma count_received_fields:
  "p_avg_confidence (count_received tg p cs) = p_avg_confidence p"
  "p_total_claims (count_received tg p cs) = p_total_claims p"
  "p_challenges_made (count_received tg p cs) = p_challenges_made p"
  "p_debates_participated (count_received tg p cs) = p_debates_participated p"
  "p_expert_id (count_received tg p cs) = p_expert_id p"
  by (induction cs arbitrary: p) simp_all

lemma count_received_total:
  "p_challenges_received (count_received tg p cs) =
     p_challenges_received p + int (length (filter (\<lambda>c. tg (c_id c) \<noteq> None) cs))"
  by (induction cs arbitrary: p) simp_all

lemma update_avg_fields:
  "p_challenges_received (update_avg p move) = p_challenges_received p"
  "p_total_claims (update_avg p move) = p_total_claims p"
  "p_challenges_made (update_avg p move) = p_challenges_made p"
  by (simp_all add: update_avg_def Let_def)

lemma dom_inner_targets:
  "dom (foldl (\<lambda>d target. d(target \<mapsto> a)) d ts) = dom d \<union> set ts"
  by (induction ts arbitrary: d) auto

lemma dom_outer_targets:
  "dom (foldl (\<lambda>d move. foldl (\<lambda>d target. d(target \<mapsto> m_agent_id move)) d (m_targets move))
          d moves) = dom d \<union> (\<Union>m\<in>set moves. set (m_targets m))"
  by (induction moves arbitrary: d) (auto simp: dom_inner_targets)

lemma dom_all_targets: "dom (all_targets moves) = (\<Union>m\<in>set moves. set (m_targets m))"
  by (simp add: all_targets_def dom_outer_targets)

lemma all_targets_member:
  "(all_targets moves t \<noteq> None) = (t \<in> (\<Union>m\<in>set moves. set (m_targets m)))"
  using dom_all_targets [of moves] by (auto simp: dom_def)

lemma all_targets_member_ex:
  "(\<exists>y. all_targets moves t = Some y) = (\<exists>m\<in>set moves. t \<in> set (m_targets m))"
  using all_targets_member [of moves t] by simp

lemma update_move_received:
  "case_option 0 p_challenges_received (update_move tg perf move eid) =
     case_option 0 p_challenges_received (perf eid) +
     (if m_move_type move \<noteq> ''error'' \<and> m_move_type move \<noteq> ''synthesize'' \<and>
         m_agent_id move = eid
      then int (length (filter (\<lambda>c. tg (c_id c) \<noteq> None) (m_claims move))) else 0)"
  by (simp add: update_move_def Let_def count_received_total update_avg_fields new_performance_def
      split: option.splits)

lemma foldl_update_move_received:
  "case_option 0 p_challenges_received (foldl (update_move tg) perf moves eid) =
     case_option 0 p_challenges_received (perf eid) +
     (\<Sum>move\<leftarrow>filter (\<lambda>move. m_move_type move \<noteq> ''error'' \<and>
                              m_move_type move \<noteq> ''synthesize'' \<and> m_agent_id move = eid) moves.
        int (length (filter (\<lambda>c. tg (c_id c) \<noteq> None) (m_claims move))))"
proof (induction moves arbitrary: perf)
  case Nil
  show ?case by simp
next
  case (Cons move moves)
  show ?case
    by (simp add: Cons.IH update_move_received)
qed

lemma received_all_targets:
  "case_option 0 p_challenges_received
      (load_performance (update_panel_performance mm state) eid) =
     case_option 0 p_challenges_received (load_performance mm eid) +
     (\<Sum>move\<leftarrow>filter (\<lambda>move. m_move_type move \<noteq> ''error'' \<and>
                              m_move_type move \<noteq> ''synthesize'' \<and> m_agent_id move = eid)
                    (s_moves state).
        int (length (filter (\<lambda>claim. c_id claim \<in> (\<Union>m\<in>set (s_moves state). set (m_targets m)))
                       (m_claims move))))"
  by (simp add: update_panel_performance_def save_performance_def load_performance_def
      foldl_update_move_received all_targets_member_ex Let_def)

lemma perf_AB:
  "load_performance (update_panel_performance memory_empty state_AB) ''expert_a'' =
     Some \<lparr>p_expert_id = ''expert_a'', p_debates_participated = 1, p_total_claims = 2,
           p_avg_confidence = 7 / 10, p_challenges_received = 1, p_challenges_made = 0\<rparr>"
  "load_performance (update_panel_performance memory_empty state_AB) ''expert_b'' =
     Some \<lparr>p_expert_id = ''expert_b'', p_debates_participated = 1, p_total_claims = 1,
           p_avg_confidence = 9 / 10, p_challenges_received = 0, p_challenges_made = 1\<rparr>"
  by (simp_all add: update_panel_performance_def load_performance_def save_performance_def
      memory_empty_def state_AB_def mk_state_def move_M1_def move_M2_def mk_move_def
      mk_claim_def all_targets_def update_move_def update_avg_def new_performance_def
      py_sum_def len_def Let_def)

text \<open>
  The claim count of a record never goes below zero: a new record starts at 0 and a
  processed move adds the length of its claims list.
\<close>

lemma update_move_total_claims:
  "case_option 0 p_total_claims (update_move tg perf move eid) =
     case_option 0 p_total_claims (perf eid) +
     (if m_move_type move \<noteq> ''error'' \<and> m_move_type move \<noteq> ''synthesize'' \<and>
         m_agent_id move = eid
      then int (length (m_claims move)) else 0)"
  by (simp add: update_move_def Let_def count_received_fields update_avg_fields
      new_performance_def len_def split: option.splits)

lemma update_move_nonneg:
  assumes "\<forall>q\<in>ran perf. 0 \<le> p_total_claims q"
  shows "\<forall>q\<in>ran (update_move tg perf move). 0 \<le> p_total_claims q"
proof
  fix q
  assume "q \<in> ran (update_move tg perf move)"
  then obtain eid where q: "update_move tg perf move eid = Some q"
    by (auto simp: ran_def)
  have old: "0 \<le> case_option 0 p_total_claims (perf eid)"
    using assms by (auto simp: ran_def split: option.splits)
  have "p_total_claims q = case_option 0 p_total_claims (update_move tg perf move eid)"
    by (simp add: q)
  also have "\<dots> = case_option 0 p_total_claims (perf eid) +
     (if m_move_type move \<noteq> ''error'' \<and> m_move_type move \<noteq> ''synthesize'' \<and>
         m_agent_id move = eid
      then int (length (m_claims move)) else 0)"
    by (rule update_move_total_claims)
  finally show "0 \<le> p_total_claims q"
    using old by simp
qed

lemma foldl_update_move_nonneg:
  "\<forall>q\<in>ran perf. 0 \<le> p_total_claims q \<Longrightarrow>
     \<forall>q\<in>ran (foldl (update_move tg) perf moves). 0 \<le> p_total_claims q"
proof (induction moves arbitrary: perf)
  case Nil
  then show ?case by simp
next
  case (Cons move moves)
  have "\<forall>q\<in>ran (update_move tg perf move). 0 \<le> p_total_claims q"
    using Cons.prems by (rule update_move_nonneg)
  then have "\<forall>q\<in>ran (foldl (update_move tg) (update_move tg perf move) moves).
      0 \<le> p_total_claims q"
    by (rule Cons.IH)
  then show ?case by simp
qed

lemma update_panel_performance_nonneg:
  assumes "\<forall>q\<in>ran (load_performance mm). 0 \<le> p_total_claims q"
  shows "\<forall>q\<in>ran (load_performance (update_panel_performance mm state)). 0 \<le> p_total_claims q"
proof -
  have "load_performance (update_panel_performance mm state) =
      foldl (update_move (all_targets (s_moves state))) (load_performance mm) (s_moves state)"
    by (simp add: update_panel_performance_def save_performance_def load_performance_def Let_def)
  then show ?thesis
    using foldl_update_move_nonneg [OF assms] by simp
qed

lemma update_move_avg:
  assumes "m_move_type move \<noteq> ''error''" and "m_move_type move \<noteq> ''synthesize''"
    and "perf (m_agent_id move) = Some p" and "0 \<le> p_total_claims p"
  shows "\<exists>p'. update_move targets perf move (m_agent_id move) = Some p' \<and>
           p_total_claims p' = p_total_claims p + int (length (m_claims move)) \<and>
           p_avg_confidence p' =
             (if 0 < length (m_claims move)
              then (p_avg_confidence p * real_of_int (p_total_claims p) +
                      (sum_list (map c_confidence (m_claims move)) / real (length (m_claims move)))
                        * real (length (m_claims move)))
                    / real_of_int (p_total_claims p + int (length (m_claims move)))
              else p_avg_confidence p)"
proof -
  have "m_claims move \<noteq> [] \<Longrightarrow> 0 < int (length (m_claims move))"
    by simp
  then have pos: "m_claims move \<noteq> [] \<Longrightarrow>
      0 < p_total_claims p + int (length (m_claims move))"
    using assms(4) by linarith
  show ?thesis
    using assms(1-3) pos
    by (simp add: update_move_def Let_def count_received_fields update_avg_def len_def
        py_sum_sum_list)
qed

text \<open>
  C5. For a move that is processed (neither an error nor a synthesis) and an expert with
  a record already, the record after the move has the average
  \<open>(old_avg * old_total + mean * n_new) / (old_total + n_new)\<close> when the move has
  \<open>n_new > 0\<close> claims, with \<open>mean\<close> the mean confidence of the move's claims and \<open>old_total\<close>
  the claim count of the record before the move; with no claims the average is unchanged.
  The record before the move has a claim count of at least 0, as every record that
  \<open>update_panel_performance\<close> stores has: a store without a performance file holds no
  record, and an update of a store whose counts are all at least 0 leaves them so.
\<close>

theorem avg_confidence_running_mean:
  "(m_move_type move \<noteq> ''error'' \<and> m_move_type move \<noteq> ''synthesize'' \<and>
    perf (m_agent_id move) = Some p \<and> 0 \<le> p_total_claims p \<longrightarrow>
      (\<exists>p'. update_move targets perf move (m_agent_id move) = Some p' \<and>
           p_total_claims p' = p_total_claims p + int (length (m_claims move)) \<and>
           p_avg_confidence p' =
             (if 0 < length (m_claims move)
              then (p_avg_confidence p * real_of_int (p_total_claims p) +
                      (sum_list (map c_confidence (m_claims move)) / real (length (m_claims move)))
                        * real (length (m_claims move)))
                    / real_of_int (p_total_claims p + int (length (m_claims move)))
              else p_avg_confidence p))) \<and>
   (performance_file mm = None \<longrightarrow> ran (load_performance mm) = {}) \<and>
   ((\<forall>q\<in>ran (load_performance mm). 0 \<le> p_total_claims q) \<longrightarrow>
      (\<forall>q\<in>ran (load_performance (update_panel_performance mm state)). 0 \<le> p_total_claims q))"
proof (intro conjI impI)
  assume "m_move_type move \<noteq> ''error'' \<and> m_move_type move \<noteq> ''synthesize'' \<and>
    perf (m_agent_id move) = Some p \<and> 0 \<le> p_total_claims p"
  then show "\<exists>p'. update_move targets perf move (m_agent_id move) = Some p' \<and>
           p_total_claims p' = p_total_claims p + int (length (m_claims move)) \<and>
           p_avg_confidence p' =
             (if 0 < length (m_claims move)
              then (p_avg_confidence p * real_of_int (p_total_claims p) +
                      (sum_list (map c_confidence (m_claims move)) / real (length (m_claims move)))
                        * real (length (m_claims move)))
                    / real_of_int (p_total_claims p + int (length (m_claims move)))
              else p_avg_confidence p)"
    using update_move_avg [of move perf p targets] by blast
next
  assume "performance_file mm = None"
  then show "ran (load_performance mm) = {}"
    by (simp add: load_performance_def)
next
  assume "\<forall>q\<in>ran (load_performance mm). 0 \<le> p_total_claims q"
  then show "\<forall>q\<in>ran (load_performance (update_panel_performance mm state)).
      0 \<le> p_total_claims q"
    by (rule update_panel_performance_nonneg)
qed

theorem avg_confidence_running_mean_witness:
  "map_option p_avg_confidence
     (update_move Map.empty [''expert_a'' \<mapsto> perf_a 2 (7 / 10)] move_M3 ''expert_a'')
     = Some (23 / 30) \<and>
   map_option p_total_claims
     (update_move Map.empty [''expert_a'' \<mapsto> perf_a 2 (7 / 10)] move_M3 ''expert_a'')
     = Some 3 \<and>
   ran (load_performance memory_empty) = {} \<and>
   (\<exists>q. load_performance (update_panel_performance memory_empty state_AB) ''expert_a'' = Some q \<and>
        0 \<le> p_total_claims q)"
proof -
  note inst = avg_confidence_running_mean
    [of move_M3 "[''expert_a'' \<mapsto> perf_a 2 (7 / 10)]" "perf_a 2 (7 / 10)" Map.empty
        memory_empty state_AB]
  have hyps: "m_move_type move_M3 \<noteq> ''error'' \<and> m_move_type move_M3 \<noteq> ''synthesize'' \<and>
      [''expert_a'' \<mapsto> perf_a 2 (7 / 10)] (m_agent_id move_M3) = Some (perf_a 2 (7 / 10)) \<and>
      0 \<le> p_total_claims (perf_a 2 (7 / 10))"
    by (simp add: move_M3_def mk_move_def perf_a_def)
  have agent: "m_agent_id move_M3 = ''expert_a''"
    by (simp add: move_M3_def mk_move_def)
  obtain p' where p':
    "update_move Map.empty [''expert_a'' \<mapsto> perf_a 2 (7 / 10)] move_M3 ''expert_a'' = Some p'"
    "p_total_claims p' = p_total_claims (perf_a 2 (7 / 10)) + int (length (m_claims move_M3))"
    "p_avg_confidence p' =
       (if 0 < length (m_claims move_M3)
        then (p_avg_confidence (perf_a 2 (7 / 10)) * real_of_int (p_total_claims (perf_a 2 (7 / 10))) +
                (sum_list (map c_confidence (m_claims move_M3)) / real (length (m_claims move_M3)))
                  * real (length (m_claims move_M3)))
              / real_of_int (p_total_claims (perf_a 2 (7 / 10)) + int (length (m_claims move_M3)))
        else p_avg_confidence (perf_a 2 (7 / 10)))"
    using inst [THEN conjunct1, rule_format, OF hyps] unfolding agent by blast
  have avg: "p_avg_confidence p' = 23 / 30"
    unfolding p'(3) by (simp add: move_M3_def mk_move_def mk_claim_def perf_a_def)
  have total: "p_total_claims p' = 3"
    unfolding p'(2) by (simp add: move_M3_def mk_move_def mk_claim_def perf_a_def)
  have none: "ran (load_performance memory_empty) = {}"
    using inst [THEN conjunct2, THEN conjunct1] by (simp add: memory_empty_def)
  have "\<forall>q\<in>ran (load_performance (update_panel_performance memory_empty state_AB)).
      0 \<le> p_total_claims q"
    using inst [THEN conjunct2, THEN conjunct2] none by simp
  moreover obtain q where
    q: "load_performance (update_panel_performance memory_empty state_AB) ''expert_a'' = Some q"
    using perf_AB(1) by blast
  ultimately have "0 \<le> p_total_claims q"
    by (auto simp: ran_def)
  with q avg total p'(1) none show ?thesis by simp
qed

text \<open>
  C6. After \<open>update_panel_performance\<close> an expert's \<open>challenges_received\<close> has grown by the
  number of claims, over the expert's processed moves, whose id is a target of some move
  of the same debate, wherever that move stands in the list. In the debate of the test,
  where the later move of \<open>expert_b\<close> targets the first claim of \<open>expert_a\<close>:
  \<open>expert_a\<close> has 2 claims and 1 challenge received, \<open>expert_b\<close> has 1 claim and 1 challenge
  made.
\<close>

theorem challenges_received_counts_all_targets:
  "case_option 0 p_challenges_received
      (load_performance (update_panel_performance mm state) eid) =
     case_option 0 p_challenges_received (load_performance mm eid) +
     (\<Sum>move\<leftarrow>filter (\<lambda>move. m_move_type move \<noteq> ''error'' \<and>
                              m_move_type move \<noteq> ''synthesize'' \<and> m_agent_id move = eid)
                    (s_moves state).
        int (length (filter (\<lambda>claim. c_id claim \<in> (\<Union>m\<in>set (s_moves state). set (m_targets m)))
                       (m_claims move)))) \<and>
   map_option p_total_claims
     (load_performance (update_panel_performance memory_empty state_AB) ''expert_a'') = Some 2 \<and>
   map_option p_challenges_received
     (load_performance (update_panel_performance memory_empty state_AB) ''expert_a'') = Some 1 \<and>
   map_option p_total_claims
     (load_performance (update_panel_performance memory_empty state_AB) ''expert_b'') = Some 1 \<and>
   map_option p_challenges_made
     (load_performance (update_panel_performance memory_empty state_AB) ''expert_b'') = Some 1"
  by (simp add: received_all_targets perf_AB)

section \<open>Properties of the debate runner\<close>

lemma run_agents_Nil [simp]: "run_agents env spec agents mc rnd sc [] = sc"
  by (simp add: run_agents_def)

lemma run_agents_Cons [simp]:
  "run_agents env spec agents mc rnd sc (a # as) =
     run_agents env spec agents mc rnd (run_turn env spec agents mc rnd sc a) as"
  by (simp add: run_agents_def)

lemma run_rounds_Nil [simp]: "run_rounds env spec agents mc sc [] = sc"
  by (simp add: run_rounds_def)

lemma run_rounds_Cons [simp]:
  "run_rounds env spec agents mc sc (rnd # rounds) =
     run_rounds env spec agents mc (run_agents env spec agents mc rnd sc (r_agents rnd)) rounds"
  by (simp add: run_rounds_def)

lemma append_move_moves: "s_moves (append_move state move) = s_moves state @ [move]"
  by (simp add: append_move_def)

lemma run_turn_failure:
  assumes "agents agent_id = Some agent"
    and "make_move env agent rnd (d_context spec) (s_moves state) (format_move_id k) mc
           (d_synthesizer_prompt spec) = Inl e"
  shows "run_turn env spec agents mc rnd (state, k) agent_id =
           (append_move state
              (error_move (format_move_id k) agent_id (display_title (a_expert agent))
                 (r_number rnd) e (clock env k)), k + 1)"
  using assms by (simp add: run_turn_def Let_def)

lemma run_turn_success:
  assumes "agents agent_id = Some agent"
    and "make_move env agent rnd (d_context spec) (s_moves state) (format_move_id k) mc
           (d_synthesizer_prompt spec) = Inr move"
    and "write_move env k (r_number rnd) agent_id move = None"
  shows "run_turn env spec agents mc rnd (state, k) agent_id =
           ((append_move state move)
              \<lparr>s_total_input_tokens := s_total_input_tokens state + m_input_tokens move,
               s_total_output_tokens := s_total_output_tokens state + m_output_tokens move\<rparr>,
            k + 1)"
  using assms by (simp add: run_turn_def Let_def append_move_def)

text \<open>No turn, round or run removes or reorders a recorded move.\<close>

lemma run_turn_extends:
  "\<exists>ms. s_moves (fst (run_turn env spec agents mc rnd sc a)) = s_moves (fst sc) @ ms"
  by (auto simp: run_turn_def Let_def append_move_def split: option.splits sum.splits)

lemma run_agents_extends:
  "\<exists>ms. s_moves (fst (run_agents env spec agents mc rnd sc as)) = s_moves (fst sc) @ ms"
proof (induction as arbitrary: sc)
  case Nil
  show ?case by simp
next
  case (Cons a as)
  obtain ms1 where 1: "s_moves (fst (run_turn env spec agents mc rnd sc a)) = s_moves (fst sc) @ ms1"
    using run_turn_extends by blast
  obtain ms2 where 2: "s_moves (fst (run_agents env spec agents mc rnd
          (run_turn env spec agents mc rnd sc a) as)) =
        s_moves (fst (run_turn env spec agents mc rnd sc a)) @ ms2"
    using Cons.IH by blast
  show ?case by (simp add: 1 2)
qed

lemma run_rounds_extends:
  "\<exists>ms. s_moves (fst (run_rounds env spec agents mc sc rounds)) = s_moves (fst sc) @ ms"
proof (induction rounds arbitrary: sc)
  case Nil
  show ?case by simp
next
  case (Cons rnd rounds)
  obtain ms1 where 1: "s_moves (fst (run_agents env spec agents mc rnd sc (r_agents rnd))) =
      s_moves (fst sc) @ ms1"
    using run_agents_extends by blast
  obtain ms2 where 2: "s_moves (fst (run_rounds env spec agents mc
          (run_agents env spec agents mc rnd sc (r_agents rnd)) rounds)) =
        s_moves (fst (run_agents env spec agents mc rnd sc (r_agents rnd))) @ ms2"
    using Cons.IH by blast
  show ?case by (simp add: 1 2)
qed

text \<open>
  A turn whose capability call raises, at any point of any round: the error move is
  appended, and the rest of the round and the later rounds run from the state with it.
\<close>

lemma failure_is_isolated:
  assumes "agents agent_id = Some agent"
    and "make_move env agent rnd (d_context spec) (s_moves state) (format_move_id k) mc
           (d_synthesizer_prompt spec) = Inl e"
  shows "\<exists>err more.
     m_move_type err = ''error'' \<and> m_claims err = [] \<and> m_content err = ''Agent error: '' @ e \<and>
     m_move_id err = format_move_id k \<and> m_agent_id err = agent_id \<and>
     m_round err = r_number rnd \<and>
     run_turn env spec agents mc rnd (state, k) agent_id = (append_move state err, k + 1) \<and>
     run_rounds env spec agents mc
       (run_agents env spec agents mc rnd (state, k) (agent_id # rest)) later =
     run_rounds env spec agents mc
       (run_agents env spec agents mc rnd (append_move state err, k + 1) rest) later \<and>
     s_moves (fst (run_rounds env spec agents mc
       (run_agents env spec agents mc rnd (state, k) (agent_id # rest)) later)) =
       s_moves state @ [err] @ more"
proof -
  let ?err = "error_move (format_move_id k) agent_id (display_title (a_expert agent))
                 (r_number rnd) e (clock env k)"
  have turn: "run_turn env spec agents mc rnd (state, k) agent_id = (append_move state ?err, k + 1)"
    using assms by (rule run_turn_failure)
  obtain ms1 where 1: "s_moves (fst (run_agents env spec agents mc rnd
        (append_move state ?err, k + 1) rest)) = s_moves (append_move state ?err) @ ms1"
    using run_agents_extends [of env spec agents mc rnd "(append_move state ?err, k + 1)" rest]
    by auto
  obtain ms2 where 2: "s_moves (fst (run_rounds env spec agents mc
        (run_agents env spec agents mc rnd (append_move state ?err, k + 1) rest) later)) =
      s_moves (fst (run_agents env spec agents mc rnd (append_move state ?err, k + 1) rest)) @ ms2"
    using run_rounds_extends by blast
  have moves: "s_moves (fst (run_rounds env spec agents mc
       (run_agents env spec agents mc rnd (state, k) (agent_id # rest)) later)) =
       s_moves state @ [?err] @ (ms1 @ ms2)"
    using 1 2 by (simp add: turn append_move_moves)
  have fields: "m_move_type ?err = ''error''" "m_claims ?err = []"
    "m_content ?err = ''Agent error: '' @ e" "m_move_id ?err = format_move_id k"
    "m_agent_id ?err = agent_id" "m_round ?err = r_number rnd"
    by (simp_all add: error_move_def)
  have cont: "run_rounds env spec agents mc
       (run_agents env spec agents mc rnd (state, k) (agent_id # rest)) later =
     run_rounds env spec agents mc
       (run_agents env spec agents mc rnd (append_move state ?err, k + 1) rest) later"
    by (simp add: turn)
  from fields turn cont moves show ?thesis by blast
qed

text \<open>The first round with two agents, the second of which raises.\<close>

lemma two_agent_round:
  assumes agents: "r_agents rnd = [a1, a2]"
    and a1: "agents a1 = Some ag1" and a2: "agents a2 = Some ag2"
    and empty: "s_moves st0 = []"
    and first: "make_move env ag1 rnd (d_context spec) [] (format_move_id 1) mc
                  (d_synthesizer_prompt spec) = Inr m1"
    and written: "write_move env 1 (r_number rnd) a1 m1 = None"
    and second: "make_move env ag2 rnd (d_context spec) [m1] (format_move_id 2) mc
                   (d_synthesizer_prompt spec) = Inl e"
  shows "run_agents env spec agents mc rnd (st0, 1) (r_agents rnd) =
           (append_move
              ((append_move st0 m1)
                 \<lparr>s_total_input_tokens := s_total_input_tokens st0 + m_input_tokens m1,
                  s_total_output_tokens := s_total_output_tokens st0 + m_output_tokens m1\<rparr>)
              (error_move (format_move_id 2) a2 (display_title (a_expert ag2))
                 (r_number rnd) e (clock env 2)), 3)"
proof -
  let ?st1 = "(append_move st0 m1)
                 \<lparr>s_total_input_tokens := s_total_input_tokens st0 + m_input_tokens m1,
                  s_total_output_tokens := s_total_output_tokens st0 + m_output_tokens m1\<rparr>"
  have first': "make_move env ag1 rnd (d_context spec) (s_moves st0) (format_move_id 1) mc
                  (d_synthesizer_prompt spec) = Inr m1"
    using first by (simp only: empty)
  have t1a: "run_turn env spec agents mc rnd (st0, 1) a1 = (?st1, 1 + 1)"
    by (rule run_turn_success [of agents a1 ag1 env rnd spec st0 1 mc m1, OF a1 first' written])
  have t1: "run_turn env spec agents mc rnd (st0, 1) a1 = (?st1, 2)"
    using t1a by (simp only: one_add_one)
  have moves1: "s_moves ?st1 = [m1]"
    by (simp add: append_move_def empty)
  have second': "make_move env ag2 rnd (d_context spec) (s_moves ?st1) (format_move_id 2) mc
                   (d_synthesizer_prompt spec) = Inl e"
    using second by (simp only: moves1)
  have three: "(2::nat) + 1 = 3"
    by simp
  have t2: "run_turn env spec agents mc rnd (?st1, 2) a2 =
      (append_move ?st1 (error_move (format_move_id 2) a2 (display_title (a_expert ag2))
                 (r_number rnd) e (clock env 2)), 3)"
    using run_turn_failure [of agents a2 ag2 env rnd spec "?st1" 2 mc e, OF a2 second']
    by (simp only: three)
  show ?thesis
    by (simp only: agents run_agents_Cons run_agents_Nil t1 t2)
qed

lemma two_agent_scenario:
  assumes rounds: "d_rounds spec = rnd # later" and agents: "r_agents rnd = [a1, a2]"
    and a1: "init_agents panel model synth_model a1 = Some ag1"
    and a2: "init_agents panel model synth_model a2 = Some ag2"
    and mc: "mc = (case memory of None \<Rightarrow> [] | Some mm \<Rightarrow> load_context mm)"
    and first: "make_move env ag1 rnd (d_context spec) [] (format_move_id 1) mc
                  (d_synthesizer_prompt spec) = Inr m1"
    and written: "write_move env 1 (r_number rnd) a1 m1 = None"
    and second: "make_move env ag2 rnd (d_context spec) [m1] (format_move_id 2) mc
                   (d_synthesizer_prompt spec) = Inl e"
  shows "\<exists>err st2 more.
           m_move_type err = ''error'' \<and> m_claims err = [] \<and>
           m_content err = ''Agent error: '' @ e \<and>
           s_moves st2 = [m1, err] \<and>
           run env spec panel model synth_model memory started finished =
             (fst (run_rounds env spec (init_agents panel model synth_model) mc (st2, 3) later))
               \<lparr>s_finished_at := finished\<rparr> \<and>
           s_moves (run env spec panel model synth_model memory started finished) =
             [m1, err] @ more"
proof -
  let ?agents = "init_agents panel model synth_model"
  define st0 where "st0 =
     \<lparr>s_spec_title = d_title spec, s_panel_name = pn_name panel, s_model = model,
      s_synth_model = synth_model, s_num_experts = len (pn_experts panel),
      s_num_rounds = len (d_rounds spec), s_moves = [], s_started_at = started,
      s_finished_at = [], s_total_input_tokens = 0, s_total_output_tokens = 0\<rparr>"
  define err where "err = error_move (format_move_id 2) a2 (display_title (a_expert ag2))
                 (r_number rnd) e (clock env 2)"
  define st2 where "st2 = append_move
              ((append_move st0 m1)
                 \<lparr>s_total_input_tokens := s_total_input_tokens st0 + m_input_tokens m1,
                  s_total_output_tokens := s_total_output_tokens st0 + m_output_tokens m1\<rparr>)
              err"
  have empty: "s_moves st0 = []"
    by (simp add: st0_def)
  have start: "run env spec panel model synth_model memory started finished =
      (fst (run_rounds env spec ?agents mc (st0, 1) (d_rounds spec)))\<lparr>s_finished_at := finished\<rparr>"
    unfolding run_def Let_def st0_def mc by (rule refl)
  have round: "run_agents env spec ?agents mc rnd (st0, 1) (r_agents rnd) = (st2, 3)"
    unfolding st2_def err_def
    by (rule two_agent_round [OF agents a1 a2 empty first written second])
  have later: "run_rounds env spec ?agents mc (st0, 1) (d_rounds spec) =
      run_rounds env spec ?agents mc (st2, 3) later"
    by (simp only: rounds run_rounds_Cons round)
  have run: "run env spec panel model synth_model memory started finished =
      (fst (run_rounds env spec ?agents mc (st2, 3) later))\<lparr>s_finished_at := finished\<rparr>"
    by (simp only: start later)
  have moves2: "s_moves st2 = [m1, err]"
    by (simp add: st2_def append_move_def empty)
  obtain more where more: "s_moves (fst (run_rounds env spec ?agents mc (st2, 3) later)) =
      s_moves st2 @ more"
    using run_rounds_extends [of env spec ?agents mc "(st2, 3)" later] by auto
  have final: "s_moves (run env spec panel model synth_model memory started finished) =
      [m1, err] @ more"
    unfolding run using more moves2 by simp
  have fields: "m_move_type err = ''error''" "m_claims err = []"
    "m_content err = ''Agent error: '' @ e"
    by (simp_all add: err_def error_move_def)
  from fields moves2 run final show ?thesis by blast
qed

text \<open>The run of two rounds in which \<open>e2\<close> raises, evaluated.\<close>

lemma run_test:
  "map m_move_type
     (s_moves (run env_test spec_test panel_test ''sonnet'' ''opus'' None ''t0'' ''t9''))
     = [''claim'', ''error'', ''claim'']"
  "map m_move_id
     (s_moves (run env_test spec_test panel_test ''sonnet'' ''opus'' None ''t0'' ''t9''))
     = [''M001'', ''M002'', ''M003'']"
  "map m_round
     (s_moves (run env_test spec_test panel_test ''sonnet'' ''opus'' None ''t0'' ''t9''))
     = [1, 1, 2]"
  by code_simp+

text \<open>
  C1. When the agent capability raises on a turn, the runner appends a move of type
  \<open>error\<close> with no claims and the content \<open>Agent error: \<close> followed by the failure's text,
  under the turn's move id, agent and round; the remaining agents of the round and the
  later rounds are run from the state that holds it, and the moves recorded before stay in
  front of it. In a run whose first round has two agents, the first of which answers and
  the second of which raises, the state after the round holds exactly the answer and an
  error move, the later rounds run from that state, and the run's moves start with these
  two.
\<close>

theorem agent_failure_does_not_abort:
  "(agents agent_id = Some agent \<and>
    make_move env agent rnd (d_context spec) (s_moves state) (format_move_id k) mc
      (d_synthesizer_prompt spec) = Inl e \<longrightarrow>
    (\<exists>err more.
       m_move_type err = ''error'' \<and> m_claims err = [] \<and>
       m_content err = ''Agent error: '' @ e \<and>
       m_move_id err = format_move_id k \<and> m_agent_id err = agent_id \<and>
       m_round err = r_number rnd \<and>
       run_turn env spec agents mc rnd (state, k) agent_id = (append_move state err, k + 1) \<and>
       run_rounds env spec agents mc
         (run_agents env spec agents mc rnd (state, k) (agent_id # rest)) later =
       run_rounds env spec agents mc
         (run_agents env spec agents mc rnd (append_move state err, k + 1) rest) later \<and>
       s_moves (fst (run_rounds env spec agents mc
         (run_agents env spec agents mc rnd (state, k) (agent_id # rest)) later)) =
         s_moves state @ [err] @ more)) \<and>
   (d_rounds spec2 = rnd1 # later2 \<and> r_agents rnd1 = [a1, a2] \<and>
    init_agents panel model synth_model a1 = Some ag1 \<and>
    init_agents panel model synth_model a2 = Some ag2 \<and>
    mc2 = (case memory of None \<Rightarrow> [] | Some mm \<Rightarrow> load_context mm) \<and>
    make_move env2 ag1 rnd1 (d_context spec2) [] (format_move_id 1) mc2
      (d_synthesizer_prompt spec2) = Inr m1 \<and>
    write_move env2 1 (r_number rnd1) a1 m1 = None \<and>
    make_move env2 ag2 rnd1 (d_context spec2) [m1] (format_move_id 2) mc2
      (d_synthesizer_prompt spec2) = Inl e2 \<longrightarrow>
    (\<exists>err st2 more.
       m_move_type err = ''error'' \<and> m_claims err = [] \<and>
       m_content err = ''Agent error: '' @ e2 \<and>
       s_moves st2 = [m1, err] \<and>
       run env2 spec2 panel model synth_model memory started finished =
         (fst (run_rounds env2 spec2 (init_agents panel model synth_model) mc2 (st2, 3) later2))
           \<lparr>s_finished_at := finished\<rparr> \<and>
       s_moves (run env2 spec2 panel model synth_model memory started finished) =
         [m1, err] @ more))"
proof (intro conjI impI)
  assume "agents agent_id = Some agent \<and>
    make_move env agent rnd (d_context spec) (s_moves state) (format_move_id k) mc
      (d_synthesizer_prompt spec) = Inl e"
  then show "\<exists>err more.
       m_move_type err = ''error'' \<and> m_claims err = [] \<and>
       m_content err = ''Agent error: '' @ e \<and>
       m_move_id err = format_move_id k \<and> m_agent_id err = agent_id \<and>
       m_round err = r_number rnd \<and>
       run_turn env spec agents mc rnd (state, k) agent_id = (append_move state err, k + 1) \<and>
       run_rounds env spec agents mc
         (run_agents env spec agents mc rnd (state, k) (agent_id # rest)) later =
       run_rounds env spec agents mc
         (run_agents env spec agents mc rnd (append_move state err, k + 1) rest) later \<and>
       s_moves (fst (run_rounds env spec agents mc
         (run_agents env spec agents mc rnd (state, k) (agent_id # rest)) later)) =
         s_moves state @ [err] @ more"
    using failure_is_isolated [of agents agent_id agent env rnd spec state k mc e rest later]
    by blast
next
  assume h: "d_rounds spec2 = rnd1 # later2 \<and> r_agents rnd1 = [a1, a2] \<and>
    init_agents panel model synth_model a1 = Some ag1 \<and>
    init_agents panel model synth_model a2 = Some ag2 \<and>
    mc2 = (case memory of None \<Rightarrow> [] | Some mm \<Rightarrow> load_context mm) \<and>
    make_move env2 ag1 rnd1 (d_context spec2) [] (format_move_id 1) mc2
      (d_synthesizer_prompt spec2) = Inr m1 \<and>
    write_move env2 1 (r_number rnd1) a1 m1 = None \<and>
    make_move env2 ag2 rnd1 (d_context spec2) [m1] (format_move_id 2) mc2
      (d_synthesizer_prompt spec2) = Inl e2"
  show "\<exists>err st2 more.
       m_move_type err = ''error'' \<and> m_claims err = [] \<and>
       m_content err = ''Agent error: '' @ e2 \<and>
       s_moves st2 = [m1, err] \<and>
       run env2 spec2 panel model synth_model memory started finished =
         (fst (run_rounds env2 spec2 (init_agents panel model synth_model) mc2 (st2, 3) later2))
           \<lparr>s_finished_at := finished\<rparr> \<and>
       s_moves (run env2 spec2 panel model synth_model memory started finished) =
         [m1, err] @ more"
    by (rule two_agent_scenario) (use h in blast)+
qed

theorem agent_failure_does_not_abort_witness:
  "map m_move_type
     (s_moves (run env_test spec_test panel_test ''sonnet'' ''opus'' None ''t0'' ''t9''))
     = [''claim'', ''error'', ''claim''] \<and>
   map m_move_id
     (s_moves (run env_test spec_test panel_test ''sonnet'' ''opus'' None ''t0'' ''t9''))
     = [''M001'', ''M002'', ''M003''] \<and>
   (\<exists>err more.
      m_move_type err = ''error'' \<and> m_claims err = [] \<and>
      m_content err = ''Agent error: boom'' \<and>
      s_moves (run env_test spec_test panel_test ''sonnet'' ''opus'' None ''t0'' ''t9'') =
        [plain_move ''M001'' ''e1'' ''Expert 1 (Title 1)'' 1, err] @ more)"
proof -
  have hyps:
    "d_rounds spec_test = round_1 # [round_2] \<and> r_agents round_1 = [''e1'', ''e2''] \<and>
     init_agents panel_test ''sonnet'' ''opus'' ''e1'' = Some (agent_of expert_e1) \<and>
     init_agents panel_test ''sonnet'' ''opus'' ''e2'' = Some (agent_of expert_e2) \<and>
     [] = (case None of None \<Rightarrow> [] | Some mm \<Rightarrow> load_context mm) \<and>
     make_move env_test (agent_of expert_e1) round_1 (d_context spec_test) []
       (format_move_id 1) [] (d_synthesizer_prompt spec_test) =
       Inr (plain_move ''M001'' ''e1'' ''Expert 1 (Title 1)'' 1) \<and>
     write_move env_test 1 (r_number round_1) ''e1''
       (plain_move ''M001'' ''e1'' ''Expert 1 (Title 1)'' 1) = None \<and>
     make_move env_test (agent_of expert_e2) round_1 (d_context spec_test)
       [plain_move ''M001'' ''e1'' ''Expert 1 (Title 1)'' 1]
       (format_move_id 2) [] (d_synthesizer_prompt spec_test) = Inl ''boom''"
    by code_simp
  have scenario: "\<exists>err st2 more.
       m_move_type err = ''error'' \<and> m_claims err = [] \<and>
       m_content err = ''Agent error: '' @ ''boom'' \<and>
       s_moves st2 = [plain_move ''M001'' ''e1'' ''Expert 1 (Title 1)'' 1, err] \<and>
       run env_test spec_test panel_test ''sonnet'' ''opus'' None ''t0'' ''t9'' =
         (fst (run_rounds env_test spec_test (init_agents panel_test ''sonnet'' ''opus'') []
                 (st2, 3) [round_2]))
           \<lparr>s_finished_at := ''t9''\<rparr> \<and>
       s_moves (run env_test spec_test panel_test ''sonnet'' ''opus'' None ''t0'' ''t9'') =
         [plain_move ''M001'' ''e1'' ''Expert 1 (Title 1)'' 1, err] @ more"
    using agent_failure_does_not_abort [THEN conjunct2, rule_format, OF hyps] .
  then have part: "\<exists>err more.
      m_move_type err = ''error'' \<and> m_claims err = [] \<and>
      m_content err = ''Agent error: boom'' \<and>
      s_moves (run env_test spec_test panel_test ''sonnet'' ''opus'' None ''t0'' ''t9'') =
        [plain_move ''M001'' ''e1'' ''Expert 1 (Title 1)'' 1, err] @ more"
    by auto
  from run_test(1) run_test(2) part show ?thesis
    by (intro conjI)
qed

end
